theory Spec2Isabelle
  imports Complex_Main "HOL-Library.AList"
begin

section \<open>Python values\<close>

text \<open>
  The script \<^verbatim>\<open>model/run.py\<close> moves Python values around: what \<^verbatim>\<open>json.load\<close>
  returns, string literals, and the placeholder objects of the workflow SDK that stand for
  a value known only when the state machine runs. One datatype holds them all. A
  dictionary is an association list in insertion order; its keys are strings, as the keys of
  a JSON object and of a keyword-argument dictionary are.
\<close>

datatype pathelem = Key string | Index int

datatype pyval =
    PNone
  | PBool bool
  | PInt int
  | PFloat real
  | PStr string
  | PList "pyval list"
  | PDict "(string \<times> pyval) list"
  | ExecutionInputVar string
    \<comment> \<open>\<^verbatim>\<open>execution_input[name]\<close>\<close>
  | StepOutputVar string "pathelem list"
    \<comment> \<open>\<^verbatim>\<open>step.output()[k1][k2]...\<close>, with the state id of the step\<close>

datatype error =
    FileNotFoundError string
  | IsADirectoryError string
  | JSONDecodeError string
  | KeyError string
  | IndexError
  | TypeError
  | ValueError
  | ClientError string
  | OSError string

text \<open>\<^verbatim>\<open>d[k]\<close> with a string key: only a dictionary answers, with KeyError for a missing key.\<close>

fun getitem :: "pyval \<Rightarrow> string \<Rightarrow> error + pyval" where
  "getitem (PDict kvs) k = (case map_of kvs k of None \<Rightarrow> Inl (KeyError k) | Some v \<Rightarrow> Inr v)"
| "getitem _ k = Inl TypeError"

text \<open>
  \<^verbatim>\<open>dict(d, **kw)\<close> and \<^verbatim>\<open>{**d, **kw}\<close>: a copy of \<open>d\<close>, then every item of \<open>kw\<close>
  assigned in order. An assignment to a key already there keeps the key's position, a new key
  goes to the end: that is \<^const>\<open>AList.update\<close>.
\<close>

definition dict_update_all :: "('k \<times> 'v) list \<Rightarrow> ('k \<times> 'v) list \<Rightarrow> ('k \<times> 'v) list" where
  "dict_update_all d kw = foldl (\<lambda>acc (k, v). AList.update k v acc) d kw"

definition and_then :: "error + 'a \<Rightarrow> ('a \<Rightarrow> error + 'b) \<Rightarrow> error + 'b" where
  "and_then r f = (case r of Inl e \<Rightarrow> Inl e | Inr x \<Rightarrow> f x)"

section \<open>The workflow graph\<close>

text \<open>
  The objects the script hands to the SDKs are recorded as data: every constructor call
  becomes a constructor (or record) holding the arguments the script passes, \<^verbatim>\<open>add_catch\<close>,
  \<^verbatim>\<open>add_branch\<close>, \<^verbatim>\<open>add_choice\<close> and \<^verbatim>\<open>default_choice\<close> fill the corresponding
  lists. What the SDKs do with these objects afterwards is not part of the script.
\<close>

record processing_input =
  pi_source :: pyval
  pi_destination :: string
  pi_input_name :: string

record processing_output =
  po_source :: string
  po_destination :: pyval
  po_output_name :: string

record processor =
  proc_image_uri :: string
  proc_role :: string
  proc_instance_count :: nat
  proc_instance_type :: string
  proc_max_runtime_in_seconds :: nat
  proc_env :: "(string \<times> string) list"

record estimator =
  est_image_uri :: pyval
  est_role :: string
  est_instance_count :: nat
  est_instance_type :: string
  est_output_path :: pyval
  est_hyperparameters :: "(string \<times> pyval) list"

record training_input =
  ti_s3_data :: pyval
  ti_content_type :: string

datatype model = ExpectedModel string estimator
  \<comment> \<open>\<^verbatim>\<open>training_step.get_expected_model()\<close>: the state id of the training step and its estimator\<close>

datatype choice_rule = NumericLessThan pyval int
  \<comment> \<open>\<^verbatim>\<open>ChoiceRule.NumericLessThan(variable, value)\<close>\<close>

datatype step =
    LambdaStep string pyval string
    \<comment> \<open>state id, parameters, result_path\<close>
  | ProcessingStep string processor pyval "processing_input list" "processing_output list"
      pyval pyval "catch list"
    \<comment> \<open>state id, processor, job_name, inputs, outputs, experiment_config, tags, catches\<close>
  | TrainingStep string estimator "(string \<times> training_input) list" pyval pyval pyval string
      "catch list"
    \<comment> \<open>state id, estimator, data, job_name, experiment_config, tags, result_path, catches\<close>
  | ModelStep string string model pyval string
    \<comment> \<open>state id, input_path, model, model_name, result_path\<close>
  | Fail string "string option" "string option"
    \<comment> \<open>state id, cause, comment\<close>
  | Succeed string
  | Choice string "(choice_rule \<times> step) list" "step option"
    \<comment> \<open>state id, choices in the order added, default\<close>
  | Parallel string "step list" "catch list"
    \<comment> \<open>state id, branches in the order added, catches\<close>
  | Chain "step list"
and catch = Catch "string list" step
    \<comment> \<open>error_equals, next_step\<close>

text \<open>
  \<^verbatim>\<open>execution_input[name]\<close>. The script builds its \<^verbatim>\<open>ExecutionInput\<close> with a schema; a
  placeholder collection with a schema answers for the names of the schema and raises
  ValueError for any other. The model keeps the names of the schema (every type in it is
  \<^verbatim>\<open>str\<close>).
\<close>

definition execution_input_getitem :: "string list \<Rightarrow> string \<Rightarrow> error + pyval" where
  "execution_input_getitem schema name =
     (if name \<in> set schema then Inr (ExecutionInputVar name) else Inl ValueError)"

section \<open>Libraries and services\<close>

text \<open>
  What the script calls and does not define is a parameter of the model: the region of the
  boto3 session, \<^verbatim>\<open>sagemaker.image_uris.retrieve\<close> (region, framework, version),
  \<^verbatim>\<open>DatasetFormat.csv()\<close>, \<^verbatim>\<open>json.dumps\<close>, \<^verbatim>\<open>json.loads\<close> on the text of a file,
  \<^verbatim>\<open>str\<close>, the \<^verbatim>\<open>to_json\<close> of a workflow definition, the pipeline state the
  CodePipeline client returns, whether attaching to and updating a workflow fail, and whether
  the operating system refuses to create a directory or to open a file for writing.
\<close>

record action_state =
  actionName :: string
  currentRevision :: "string option"
  \<comment> \<open>\<^verbatim>\<open>r["currentRevision"]["revisionId"]\<close>, None when the action has no current revision\<close>

record stage_state =
  actionStates :: "action_state list"
  latestExecution :: "string option"
  \<comment> \<open>\<^verbatim>\<open>stage["latestExecution"]["pipelineExecutionId"]\<close>, None when the stage never ran\<close>

record env =
  region_name :: "string option"
  retrieve :: "string option \<Rightarrow> string \<Rightarrow> string \<Rightarrow> error + string"
  dataset_format_csv :: pyval
  json_dumps :: "pyval \<Rightarrow> string"
  json_loads :: "string \<Rightarrow> error + pyval"
  py_str :: "pyval \<Rightarrow> string"
  definition_to_json :: "step \<Rightarrow> string"
  get_pipeline_state :: "string \<Rightarrow> error + stage_state list"
  attach_error :: "string \<Rightarrow> error option"
  update_error :: "string \<Rightarrow> step \<Rightarrow> error option"
  mkdir_error :: "string \<Rightarrow> error option"
  open_w_error :: "string \<Rightarrow> error option"

section \<open>Building the graph\<close>

definition create_experiment_step :: "string \<Rightarrow> step" where
  "create_experiment_step create_experiment_function_name =
     LambdaStep ''Create Experiment''
       (PDict [
          (''FunctionName'', PStr create_experiment_function_name),
          (''Payload'', PDict [
             (''ExperimentName.$'', PStr ''$.ExperimentName''),
             (''TrialName.$'', PStr ''$.TrialName'')])])
       ''$.CreateTrialResults''"

definition create_baseline_step ::
  "env \<Rightarrow> pyval \<Rightarrow> string list \<Rightarrow> string option \<Rightarrow> string \<Rightarrow> error + step" where
  "create_baseline_step env input_data execution_input region role =
     (let environment = [
        (''dataset_format'', json_dumps env (dataset_format_csv env)),
        (''dataset_source'', ''/opt/ml/processing/input/baseline_dataset_input''),
        (''output_path'', ''/opt/ml/processing/output''),
        (''publish_cloudwatch_metrics'', ''Disabled'')]
      in
      and_then (getitem input_data ''BaselineUri'') (\<lambda>baseline_uri.
      and_then (execution_input_getitem execution_input ''BaselineOutputUri'') (\<lambda>baseline_output_uri.
      and_then (retrieve env region ''model-monitor'' ''latest'') (\<lambda>monitor_container_uri.
      and_then (execution_input_getitem execution_input ''BaselineJobName'') (\<lambda>job_name.
      and_then (execution_input_getitem execution_input ''ExperimentName'') (\<lambda>experiment_name.
      and_then (execution_input_getitem execution_input ''TrialName'') (\<lambda>trial_name.
      and_then (execution_input_getitem execution_input ''GitBranch'') (\<lambda>git_branch.
      and_then (execution_input_getitem execution_input ''GitCommitHash'') (\<lambda>git_commit_hash.
      and_then (execution_input_getitem execution_input ''DataVersionId'') (\<lambda>data_version_id.
      Inr (ProcessingStep ''Baseline Job''
        \<lparr>proc_image_uri = monitor_container_uri,
         proc_role = role,
         proc_instance_count = 1,
         proc_instance_type = ''ml.m5.xlarge'',
         proc_max_runtime_in_seconds = 1800,
         proc_env = environment\<rparr>
        job_name
        [\<lparr>pi_source = baseline_uri,
          pi_destination = ''/opt/ml/processing/input/baseline_dataset_input'',
          pi_input_name = ''baseline_dataset_input''\<rparr>]
        [\<lparr>po_source = ''/opt/ml/processing/output'',
          po_destination = baseline_output_uri,
          po_output_name = ''monitoring_output''\<rparr>]
        (PDict [
           (''ExperimentName'', experiment_name),
           (''TrialName'', trial_name),
           (''TrialComponentDisplayName'', PStr ''Baseline'')])
        (PDict [
           (''GitBranch'', git_branch),
           (''GitCommitHash'', git_commit_hash),
           (''DataVersionId'', data_version_id)])
        [Catch [''States.TaskFailed'']
           (Fail ''Baseline failed'' (Some ''SageMakerBaselineJobFailed'') None)])))))))))))"

definition get_training_image :: "env \<Rightarrow> string option \<Rightarrow> error + string" where
  "get_training_image env region = retrieve env region ''xgboost'' ''latest''"

text \<open>The default hyperparameters, the dictionary \<^verbatim>\<open>hp\<close> of \<^verbatim>\<open>create_training_step\<close>.\<close>

definition hp :: "(string \<times> pyval) list" where
  "hp = [
     (''max_depth'', PStr ''9''),
     (''eta'', PStr ''0.2''),
     (''gamma'', PStr ''4''),
     (''min_child_weight'', PStr ''300''),
     (''subsample'', PStr ''0.8''),
     (''objective'', PStr ''reg:linear''),
     (''early_stopping_rounds'', PStr ''10''),
     (''num_round'', PStr ''100'')]"

text \<open>
  \<^verbatim>\<open>{**hp, **hyperparameters}\<close>: unpacking with \<^verbatim>\<open>**\<close> needs a mapping and raises TypeError for
  anything else.
\<close>

fun merge_hyperparameters :: "pyval \<Rightarrow> error + (string \<times> pyval) list" where
  "merge_hyperparameters (PDict hyperparameters) = Inr (dict_update_all hp hyperparameters)"
| "merge_hyperparameters _ = Inl TypeError"

definition create_training_step ::
  "pyval \<Rightarrow> pyval \<Rightarrow> pyval \<Rightarrow> pyval \<Rightarrow> string list \<Rightarrow> string \<Rightarrow> string option \<Rightarrow> string
     \<Rightarrow> error + step" where
  "create_training_step image_uri hyperparameters input_data output_data execution_input
      query_training_function_name region role =
     and_then (getitem output_data ''ModelOutputUri'') (\<lambda>model_output_uri.
     and_then (merge_hyperparameters hyperparameters) (\<lambda>merged.
     let xgb =
       \<lparr>est_image_uri = image_uri,
        est_role = role,
        est_instance_count = 1,
        est_instance_type = ''ml.m4.xlarge'',
        est_output_path = model_output_uri,
        est_hyperparameters = merged\<rparr>
     in
     and_then (getitem input_data ''TrainingUri'') (\<lambda>training_uri.
     and_then (getitem input_data ''ValidationUri'') (\<lambda>validation_uri.
     let data = [
       (''train'', \<lparr>ti_s3_data = training_uri, ti_content_type = ''csv''\<rparr>),
       (''validation'', \<lparr>ti_s3_data = validation_uri, ti_content_type = ''csv''\<rparr>)]
     in
     and_then (execution_input_getitem execution_input ''TrainingJobName'') (\<lambda>job_name.
     and_then (execution_input_getitem execution_input ''ExperimentName'') (\<lambda>experiment_name.
     and_then (execution_input_getitem execution_input ''TrialName'') (\<lambda>trial_name.
     and_then (execution_input_getitem execution_input ''GitBranch'') (\<lambda>git_branch.
     and_then (execution_input_getitem execution_input ''GitCommitHash'') (\<lambda>git_commit_hash.
     and_then (execution_input_getitem execution_input ''DataVersionId'') (\<lambda>data_version_id.
     let training_step =
       TrainingStep ''Training Job'' xgb data job_name
         (PDict [
            (''ExperimentName'', experiment_name),
            (''TrialName'', trial_name),
            (''TrialComponentDisplayName'', PStr ''Training'')])
         (PDict [
            (''GitBranch'', git_branch),
            (''GitCommitHash'', git_commit_hash),
            (''DataVersionId'', data_version_id)])
         ''$.TrainingResults''
         [Catch [''States.TaskFailed'']
            (Fail ''Training failed'' (Some ''SageMakerTrainingJobFailed'') None)]
     in
     and_then (execution_input_getitem execution_input ''TrainingJobName'') (\<lambda>model_name.
     let model_step =
       ModelStep ''Save Model'' ''$.TrainingResults'' (ExpectedModel ''Training Job'' xgb)
         model_name ''$.ModelStepResults'';
       training_query_step =
         LambdaStep ''Query Training Results''
           (PDict [
              (''FunctionName'', PStr query_training_function_name),
              (''Payload'', PDict [(''TrainingJobName.$'', PStr ''$.TrainingJobName'')])])
           ''$.QueryTrainingResults'';
       check_accuracy_fail_step =
         Fail ''Model Error Too Low'' None (Some ''RMSE accuracy higher than threshold'');
       check_accuracy_succeed_step = Succeed ''Model Error Acceptable'';
       threshold_rule =
         NumericLessThan
           (StepOutputVar ''Query Training Results''
              [Key ''QueryTrainingResults'', Key ''Payload'', Key ''results'',
               Key ''TrainingMetrics'', Index 0, Key ''Value''])
           10;
       check_accuracy_step =
         Choice ''RMSE < 10'' [(threshold_rule, check_accuracy_succeed_step)]
           (Some check_accuracy_fail_step)
     in
     Inr (Chain [training_step, model_step, training_query_step, check_accuracy_step]))))))))))))"

definition create_graph :: "step \<Rightarrow> step \<Rightarrow> step \<Rightarrow> step" where
  "create_graph experiment_step baseline_step training_step =
     Chain [experiment_step,
       Parallel ''SageMaker Jobs'' [baseline_step, training_step]
         [Catch [''States.TaskFailed'']
            (Fail ''SageMaker Jobs failed'' (Some ''SageMakerJobsFailed'') None)]]"

section \<open>Deployment parameters\<close>

definition get_dev_params :: "string \<Rightarrow> string \<Rightarrow> string \<Rightarrow> pyval \<Rightarrow> string \<Rightarrow> pyval" where
  "get_dev_params model_name job_id role image_uri kms_key_id =
     PDict [(''Parameters'', PDict [
       (''ImageRepoUri'', image_uri),
       (''ModelName'', PStr model_name),
       (''TrainJobId'', PStr job_id),
       (''MLOpsRoleArn'', PStr role),
       (''VariantName'', PStr (''dev-'' @ model_name)),
       (''KmsKeyId'', PStr kms_key_id)])]"

definition get_prd_params :: "string \<Rightarrow> string \<Rightarrow> string \<Rightarrow> pyval \<Rightarrow> string \<Rightarrow> error + pyval" where
  "get_prd_params model_name job_id role image_uri kms_key_id =
     (case getitem (get_dev_params model_name job_id role image_uri kms_key_id) ''Parameters'' of
        Inl e \<Rightarrow> Inl e
      | Inr (PDict dev_params) \<Rightarrow>
          (let prod_params = [
             (''VariantName'', PStr (''prd-'' @ model_name)),
             (''ScheduleMetricName'', PStr ''feature_baseline_drift_total_amount''),
             (''ScheduleMetricThreshold'', PStr ''0.20'')]
           in Inr (PDict [(''Parameters'', PDict (dict_update_all dev_params prod_params))]))
      | Inr _ \<Rightarrow> Inl TypeError)"

section \<open>The pipeline revision\<close>

text \<open>
  \<^verbatim>\<open>dict(pairs)\<close> assigns the pairs in order to an empty dictionary, so a later pair with
  the same key replaces the value of an earlier one.
\<close>

fun revision_pairs :: "action_state list \<Rightarrow> error + (string \<times> string) list" where
  "revision_pairs [] = Inr []"
| "revision_pairs (r # rs) =
     (case currentRevision r of
        None \<Rightarrow> Inl (KeyError ''currentRevision'')
      | Some revision_id \<Rightarrow>
          and_then (revision_pairs rs) (\<lambda>ps. Inr ((actionName r, revision_id) # ps)))"

definition get_pipeline_revision :: "env \<Rightarrow> string \<Rightarrow> error + (string \<times> string) list" where
  "get_pipeline_revision env pipeline_name =
     and_then (get_pipeline_state env pipeline_name) (\<lambda>stage_states.
     case stage_states of
       [] \<Rightarrow> Inl IndexError
     | stage # _ \<Rightarrow>
         and_then (revision_pairs (actionStates stage)) (\<lambda>pairs.
         let revision = dict_update_all [] pairs in
         case latestExecution stage of
           None \<Rightarrow> Inl (KeyError ''latestExecution'')
         | Some pipeline_execution_id \<Rightarrow> Inr (AList.update ''JobId'' pipeline_execution_id revision)))"

definition revision_getitem :: "(string \<times> string) list \<Rightarrow> string \<Rightarrow> error + string" where
  "revision_getitem revision k = (case map_of revision k of None \<Rightarrow> Inl (KeyError k) | Some v \<Rightarrow> Inr v)"

section \<open>The hyperparameters file\<close>

text \<open>
  \<^verbatim>\<open>for i in hyperparameters: hyperparameters[i] = str(hyperparameters[i])\<close> on what
  \<^verbatim>\<open>json.load\<close> returned. On a dictionary every value becomes its string. Anything else ends
  in an error, here or later at \<^verbatim>\<open>**hyperparameters\<close>: a number, a boolean and null are not
  iterable; a non-empty string is indexed by its own characters; a list is indexed by its own
  elements, position after position, and only integers (and booleans, which are integers) in
  range pass.
\<close>

fun list_index :: "pyval \<Rightarrow> int option" where
  "list_index (PInt n) = Some n"
| "list_index (PBool b) = Some (if b then 1 else 0)"
| "list_index _ = None"

fun str_list_loop :: "(pyval \<Rightarrow> string) \<Rightarrow> nat \<Rightarrow> nat \<Rightarrow> pyval list \<Rightarrow> error + pyval list" where
  "str_list_loop str 0 j xs = Inr xs"
| "str_list_loop str (Suc remaining) j xs =
     (case list_index (xs ! j) of
        None \<Rightarrow> Inl TypeError
      | Some i \<Rightarrow>
          (let len = int (length xs); k = (if i < 0 then i + len else i)
           in if 0 \<le> k \<and> k < len
              then str_list_loop str remaining (Suc j) (xs[nat k := PStr (str (xs ! nat k))])
              else Inl IndexError))"

fun str_values :: "(pyval \<Rightarrow> string) \<Rightarrow> pyval \<Rightarrow> error + pyval" where
  "str_values str (PDict kvs) = Inr (PDict (map (\<lambda>(k, v). (k, PStr (str v))) kvs))"
| "str_values str (PList xs) = and_then (str_list_loop str (length xs) 0 xs) (\<lambda>ys. Inr (PList ys))"
| "str_values str (PStr s) = (if s = [] then Inr (PStr s) else Inl TypeError)"
| "str_values str _ = Inl TypeError"

section \<open>Files, calls and the script\<close>

text \<open>
  The world the script runs in: the text of every file, the directories, and the trace of
  what the script did to it, oldest first. A file-system event is recorded when it took
  effect, a call to the workflow service when it was made (whether or not it then failed).
\<close>

datatype event =
    OpenRead string
  | AttachWorkflow string
  | UpdateWorkflow string step
  | MkDir string
  | WriteFile string string
    \<comment> \<open>the file was opened for writing and left with this text\<close>

record world =
  files :: "string \<rightharpoonup> string"
  dirs :: "string set"
  trace :: "event list"

type_synonym 'a action = "world \<Rightarrow> (error + 'a) \<times> world"

definition ret :: "'a \<Rightarrow> 'a action" where
  "ret x w = (Inr x, w)"

definition lift :: "error + 'a \<Rightarrow> 'a action" where
  "lift r w = (r, w)"

definition seq :: "'a action \<Rightarrow> ('a \<Rightarrow> 'b action) \<Rightarrow> 'b action" where
  "seq m f w = (case m w of (Inl e, w') \<Rightarrow> (Inl e, w') | (Inr x, w') \<Rightarrow> f x w')"

definition log :: "event \<Rightarrow> world \<Rightarrow> world" where
  "log ev w = w\<lparr>trace := trace w @ [ev]\<rparr>"

text \<open>\<^verbatim>\<open>os.path.join(a, b)\<close> on POSIX.\<close>

definition path_join :: "string \<Rightarrow> string \<Rightarrow> string" where
  "path_join a b =
     (if b \<noteq> [] \<and> hd b = CHR ''/'' then b
      else if a = [] \<or> last a = CHR ''/'' then a @ b
      else a @ ''/'' @ b)"

definition path_exists :: "string \<Rightarrow> bool action" where
  "path_exists p w = (Inr (p \<in> dom (files w) \<or> p \<in> dirs w), w)"

text \<open>\<^verbatim>\<open>with open(p, "r") as f: json.load(f)\<close>\<close>

definition read_json :: "env \<Rightarrow> string \<Rightarrow> pyval action" where
  "read_json env p w =
     (case files w p of
        None \<Rightarrow> (Inl (if p \<in> dirs w then IsADirectoryError p else FileNotFoundError p), w)
      | Some text \<Rightarrow> (json_loads env text, log (OpenRead p) w))"

text \<open>
  \<^verbatim>\<open>with open(p, "w") as f:\<close> around a body that computes a text and writes it. The file is
  created or emptied when it is opened, so a body that raises leaves it empty.
\<close>

definition write_file :: "env \<Rightarrow> string \<Rightarrow> error + string \<Rightarrow> unit action" where
  "write_file env p body w =
     (case open_w_error env p of
        Some e \<Rightarrow> (Inl e, w)
      | None \<Rightarrow>
          (case body of
             Inl e \<Rightarrow> (Inl e, log (WriteFile p []) (w\<lparr>files := (files w)(p \<mapsto> [])\<rparr>))
           | Inr text \<Rightarrow> (Inr (), log (WriteFile p text) (w\<lparr>files := (files w)(p \<mapsto> text)\<rparr>))))"

definition mkdir :: "env \<Rightarrow> string \<Rightarrow> unit action" where
  "mkdir env p w =
     (case mkdir_error env p of
        Some e \<Rightarrow> (Inl e, w)
      | None \<Rightarrow> (Inr (), log (MkDir p) (w\<lparr>dirs := insert p (dirs w)\<rparr>)))"

text \<open>\<^verbatim>\<open>Workflow.attach(arn)\<close> and \<^verbatim>\<open>workflow.update(graph)\<close> on the workflow attached to.\<close>

definition workflow_attach :: "env \<Rightarrow> string \<Rightarrow> unit action" where
  "workflow_attach env arn w =
     (case attach_error env arn of Some e \<Rightarrow> Inl e | None \<Rightarrow> Inr (), log (AttachWorkflow arn) w)"

definition workflow_update :: "env \<Rightarrow> string \<Rightarrow> step \<Rightarrow> unit action" where
  "workflow_update env arn graph w =
     (case update_error env arn graph of Some e \<Rightarrow> Inl e | None \<Rightarrow> Inr (),
      log (UpdateWorkflow arn graph) w)"

text \<open>
  The arguments of \<^verbatim>\<open>main\<close>, which the script passes as one dictionary
  (\<^verbatim>\<open>main(**args)\<close>). Only \<^verbatim>\<open>--ecr-dir\<close> is optional.
\<close>

record args =
  git_branch :: string
  pipeline_name :: string
  model_name :: string
  deploy_role :: string
  sagemaker_role :: string
  sagemaker_bucket :: string
  data_dir :: string
  output_dir :: string
  ecr_dir :: "string option"
  kms_key_id :: string
  workflow_pipeline_arn :: string
  create_experiment_function_name :: string
  query_training_function_name :: string

definition execution_input_schema :: "string list" where
  "execution_input_schema =
     [''GitBranch'', ''GitCommitHash'', ''DataVersionId'', ''ExperimentName'', ''TrialName'',
      ''BaselineJobName'', ''BaselineOutputUri'', ''TrainingJobName'']"

text \<open>
  \<^verbatim>\<open>main\<close>, statement by statement; what it prints is left out, but the dictionary lookups
  inside the \<^verbatim>\<open>print\<close> calls are kept, since they can raise. After a successful update the
  definition of the workflow is the graph passed to it.
\<close>

definition main :: "env \<Rightarrow> args \<Rightarrow> unit action" where
  "main env a =
     (let region = region_name env in
      seq (case ecr_dir a of
             Some d \<Rightarrow>
               if d \<noteq> [] then
                 seq (read_json env (path_join d ''imageDetail.json'')) (\<lambda>image_detail.
                 lift (getitem image_detail ''ImageURI''))
               else lift (and_then (get_training_image env region) (\<lambda>uri. Inr (PStr uri)))
           | None \<Rightarrow> lift (and_then (get_training_image env region) (\<lambda>uri. Inr (PStr uri))))
        (\<lambda>image_uri.
      seq (read_json env (path_join (data_dir a) ''inputData.json'')) (\<lambda>input_data.
      seq (lift (getitem input_data ''TrainingUri'')) (\<lambda>_.
      seq (lift (getitem input_data ''ValidationUri'')) (\<lambda>_.
      seq (lift (getitem input_data ''BaselineUri'')) (\<lambda>_.
      seq (lift (get_pipeline_revision env (pipeline_name a))) (\<lambda>revision.
      seq (lift (revision_getitem revision ''JobId'')) (\<lambda>job_id.
      seq (lift (revision_getitem revision ''GitSource'')) (\<lambda>git_commit_id.
      seq (lift (revision_getitem revision ''DataSource'')) (\<lambda>data_version_id.
      let output_data = PDict [
        (''ModelOutputUri'',
           PStr (''s3://'' @ sagemaker_bucket a @ ''/'' @ model_name a @ ''/model'')),
        (''BaselineOutputUri'',
           PStr (''s3://'' @ sagemaker_bucket a @ ''/'' @ model_name a
                 @ ''/monitoring/baseline/mlops-'' @ model_name a @ ''-pbl-'' @ job_id))]
      in
      seq (lift (getitem output_data ''ModelOutputUri'')) (\<lambda>_.
      seq (seq (path_exists (path_join (data_dir a) ''hyperparameters.json'')) (\<lambda>found.
           if found then
             seq (read_json env (path_join (data_dir a) ''hyperparameters.json'')) (\<lambda>loaded.
             lift (str_values (py_str env) loaded))
           else ret (PDict [])))
        (\<lambda>hyperparameters.
      let execution_input = execution_input_schema;
          experiment_step = create_experiment_step (create_experiment_function_name a)
      in
      seq (lift (create_baseline_step env input_data execution_input region (sagemaker_role a)))
        (\<lambda>baseline_step.
      seq (lift (create_training_step image_uri hyperparameters input_data output_data
                   execution_input (query_training_function_name a) region (sagemaker_role a)))
        (\<lambda>training_step.
      let workflow_graph = create_graph experiment_step baseline_step training_step in
      seq (workflow_attach env (workflow_pipeline_arn a)) (\<lambda>_.
      seq (workflow_update env (workflow_pipeline_arn a) workflow_graph) (\<lambda>_.
      seq (path_exists (output_dir a)) (\<lambda>found.
      seq (if \<not> found then mkdir env (output_dir a) else ret ()) (\<lambda>_.
      seq (write_file env (path_join (output_dir a) ''workflow-graph.json'')
             (Inr (definition_to_json env workflow_graph))) (\<lambda>_.
      let experiment_name = ''mlops-'' @ model_name a;
          trial_name = ''mlops-'' @ model_name a @ ''-'' @ job_id
      in
      seq (write_file env (path_join (output_dir a) ''workflow-input.json'')
             (and_then (getitem output_data ''BaselineOutputUri'') (\<lambda>baseline_output_uri.
              Inr (json_dumps env (PDict [
                (''ExperimentName'', PStr experiment_name),
                (''TrialName'', PStr trial_name),
                (''GitBranch'', PStr (git_branch a)),
                (''GitCommitHash'', PStr git_commit_id),
                (''DataVersionId'', PStr data_version_id),
                (''BaselineJobName'', PStr trial_name),
                (''BaselineOutputUri'', baseline_output_uri),
                (''TrainingJobName'', PStr trial_name)]))))) (\<lambda>_.
      seq (write_file env (path_join (output_dir a) ''deploy-model-dev.json'')
             (Inr (json_dumps env
                (get_dev_params (model_name a) job_id (deploy_role a) image_uri (kms_key_id a)))))
        (\<lambda>_.
      write_file env (path_join (output_dir a) ''template-model-prd.json'')
        (and_then (get_prd_params (model_name a) job_id (deploy_role a) image_uri (kms_key_id a))
           (\<lambda>params. Inr (json_dumps env params))))))))))))))))))))))))"

section \<open>Naming the parts of a run\<close>

text \<open>
  The definitions of this section add nothing to the script: they name pieces of \<open>main\<close>
  and observations on its runs, so that the statements below stay readable.
\<close>

definition ecr_given :: "args \<Rightarrow> bool" where
  \<comment> \<open>the test \<^verbatim>\<open>if ecr_dir:\<close>, false for a missing and for an empty \<^verbatim>\<open>--ecr-dir\<close>\<close>
  "ecr_given a = (case ecr_dir a of Some d \<Rightarrow> d \<noteq> [] | None \<Rightarrow> False)"

definition image_path :: "args \<Rightarrow> string" where
  "image_path a = (case ecr_dir a of Some d \<Rightarrow> path_join d ''imageDetail.json'' | None \<Rightarrow> [])"

definition input_path :: "args \<Rightarrow> string" where
  "input_path a = path_join (data_dir a) ''inputData.json''"

definition hyper_path :: "args \<Rightarrow> string" where
  "hyper_path a = path_join (data_dir a) ''hyperparameters.json''"

definition hyper_found :: "args \<Rightarrow> world \<Rightarrow> bool" where
  "hyper_found a w = (hyper_path a \<in> dom (files w) \<or> hyper_path a \<in> dirs w)"

definition output_found :: "args \<Rightarrow> world \<Rightarrow> bool" where
  "output_found a w = (output_dir a \<in> dom (files w) \<or> output_dir a \<in> dirs w)"

definition config_reads :: "args \<Rightarrow> world \<Rightarrow> event list" where
  "config_reads a w =
     (if ecr_given a then [OpenRead (image_path a)] else [])
     @ [OpenRead (input_path a)]
     @ (if hyper_found a w then [OpenRead (hyper_path a)] else [])"

text \<open>The events a run added to the trace.\<close>

definition new_events :: "world \<Rightarrow> world \<Rightarrow> event list" where
  "new_events w w' = drop (length (trace w)) (trace w')"

fun is_read :: "event \<Rightarrow> bool" where
  "is_read (OpenRead _) = True"
| "is_read _ = False"

fun is_artifact :: "event \<Rightarrow> bool" where
  "is_artifact (MkDir _) = True"
| "is_artifact (WriteFile _ _) = True"
| "is_artifact _ = False"

text \<open>An action that, however it ends, leaves files and directories alone and only reads.\<close>

definition quiet :: "'a action \<Rightarrow> bool" where
  "quiet m \<longleftrightarrow> (\<forall>w r w'. m w = (r, w') \<longrightarrow>
     files w' = files w \<and> dirs w' = dirs w \<and>
     (\<exists>es. trace w' = trace w @ es \<and> (\<forall>e\<in>set es. is_read e)))"

text \<open>The two dictionaries \<open>main\<close> builds in place: \<^verbatim>\<open>output_data\<close> and \<^verbatim>\<open>workflow_inputs\<close>.\<close>

definition output_data_of :: "args \<Rightarrow> string \<Rightarrow> pyval" where
  "output_data_of a job_id = PDict [
     (''ModelOutputUri'',
        PStr (''s3://'' @ sagemaker_bucket a @ ''/'' @ model_name a @ ''/model'')),
     (''BaselineOutputUri'',
        PStr (''s3://'' @ sagemaker_bucket a @ ''/'' @ model_name a
              @ ''/monitoring/baseline/mlops-'' @ model_name a @ ''-pbl-'' @ job_id))]"

definition workflow_inputs :: "args \<Rightarrow> string \<Rightarrow> string \<Rightarrow> string \<Rightarrow> (string \<times> pyval) list" where
  "workflow_inputs a job_id git_commit_id data_version_id = [
     (''ExperimentName'', PStr (''mlops-'' @ model_name a)),
     (''TrialName'', PStr (''mlops-'' @ model_name a @ ''-'' @ job_id)),
     (''GitBranch'', PStr (git_branch a)),
     (''GitCommitHash'', PStr git_commit_id),
     (''DataVersionId'', PStr data_version_id),
     (''BaselineJobName'', PStr (''mlops-'' @ model_name a @ ''-'' @ job_id)),
     (''BaselineOutputUri'',
        PStr (''s3://'' @ sagemaker_bucket a @ ''/'' @ model_name a
              @ ''/monitoring/baseline/mlops-'' @ model_name a @ ''-pbl-'' @ job_id)),
     (''TrainingJobName'', PStr (''mlops-'' @ model_name a @ ''-'' @ job_id))]"

text \<open>
  \<open>main\<close> cut in two: \<open>prepare\<close> is everything up to the finished graph, \<open>publish\<close>
  everything from the attachment to the workflow on. The blocks that choose the image and
  load the hyperparameters get a name too. That the pieces put together are \<open>main\<close> is
  proved below (\<open>main_decomp\<close>).
\<close>

definition load_image :: "env \<Rightarrow> args \<Rightarrow> pyval action" where
  "load_image env a =
     (case ecr_dir a of
        Some d \<Rightarrow>
          if d \<noteq> [] then
            seq (read_json env (path_join d ''imageDetail.json'')) (\<lambda>image_detail.
            lift (getitem image_detail ''ImageURI''))
          else lift (and_then (get_training_image env (region_name env)) (\<lambda>uri. Inr (PStr uri)))
      | None \<Rightarrow> lift (and_then (get_training_image env (region_name env)) (\<lambda>uri. Inr (PStr uri))))"

definition load_hyperparameters :: "env \<Rightarrow> args \<Rightarrow> pyval action" where
  "load_hyperparameters env a =
     seq (path_exists (path_join (data_dir a) ''hyperparameters.json'')) (\<lambda>found.
     if found then
       seq (read_json env (path_join (data_dir a) ''hyperparameters.json'')) (\<lambda>loaded.
       lift (str_values (py_str env) loaded))
     else ret (PDict []))"

definition prepare ::
  "env \<Rightarrow> args \<Rightarrow> (pyval \<times> string \<times> string \<times> string \<times> step) action" where
  "prepare env a =
     seq (load_image env a) (\<lambda>image_uri.
     seq (read_json env (path_join (data_dir a) ''inputData.json'')) (\<lambda>input_data.
     seq (lift (getitem input_data ''TrainingUri'')) (\<lambda>_.
     seq (lift (getitem input_data ''ValidationUri'')) (\<lambda>_.
     seq (lift (getitem input_data ''BaselineUri'')) (\<lambda>_.
     seq (lift (get_pipeline_revision env (pipeline_name a))) (\<lambda>revision.
     seq (lift (revision_getitem revision ''JobId'')) (\<lambda>job_id.
     seq (lift (revision_getitem revision ''GitSource'')) (\<lambda>git_commit_id.
     seq (lift (revision_getitem revision ''DataSource'')) (\<lambda>data_version_id.
     seq (lift (getitem (output_data_of a job_id) ''ModelOutputUri'')) (\<lambda>_.
     seq (load_hyperparameters env a) (\<lambda>hyperparameters.
     seq (lift (create_baseline_step env input_data execution_input_schema (region_name env)
                  (sagemaker_role a))) (\<lambda>baseline_step.
     seq (lift (create_training_step image_uri hyperparameters input_data
                  (output_data_of a job_id) execution_input_schema
                  (query_training_function_name a) (region_name env) (sagemaker_role a)))
       (\<lambda>training_step.
     ret (image_uri, job_id, git_commit_id, data_version_id,
          create_graph (create_experiment_step (create_experiment_function_name a))
            baseline_step training_step))))))))))))))"

definition publish ::
  "env \<Rightarrow> args \<Rightarrow> pyval \<times> string \<times> string \<times> string \<times> step \<Rightarrow> unit action" where
  "publish env a = (\<lambda>(image_uri, job_id, git_commit_id, data_version_id, workflow_graph).
     seq (workflow_attach env (workflow_pipeline_arn a)) (\<lambda>_.
     seq (workflow_update env (workflow_pipeline_arn a) workflow_graph) (\<lambda>_.
     seq (path_exists (output_dir a)) (\<lambda>found.
     seq (if \<not> found then mkdir env (output_dir a) else ret ()) (\<lambda>_.
     seq (write_file env (path_join (output_dir a) ''workflow-graph.json'')
            (Inr (definition_to_json env workflow_graph))) (\<lambda>_.
     seq (write_file env (path_join (output_dir a) ''workflow-input.json'')
            (Inr (json_dumps env
               (PDict (workflow_inputs a job_id git_commit_id data_version_id))))) (\<lambda>_.
     seq (write_file env (path_join (output_dir a) ''deploy-model-dev.json'')
            (Inr (json_dumps env
               (get_dev_params (model_name a) job_id (deploy_role a) image_uri (kms_key_id a)))))
       (\<lambda>_.
     write_file env (path_join (output_dir a) ''template-model-prd.json'')
       (and_then (get_prd_params (model_name a) job_id (deploy_role a) image_uri (kms_key_id a))
          (\<lambda>params. Inr (json_dumps env params)))))))))))"

section \<open>Reading a Choice state\<close>

text \<open>
  The script only builds the Choice state; the workflow service evaluates it when the state
  machine runs. To say where the built state sends an execution, the reading of a Choice
  state is written down here: the choices are tried in the order they were added, the first
  whose rule holds gives the next state, and the default is taken when none holds.
  \<open>number_at\<close> is the number a rule's variable refers to in the input of the state.
\<close>

fun rule_holds :: "(pyval \<Rightarrow> real) \<Rightarrow> choice_rule \<Rightarrow> bool" where
  "rule_holds number_at (NumericLessThan variable threshold) =
     (number_at variable < real_of_int threshold)"

fun route :: "(pyval \<Rightarrow> real) \<Rightarrow> (choice_rule \<times> step) list \<Rightarrow> step option \<Rightarrow> step option" where
  "route number_at [] fallback = fallback"
| "route number_at ((rule, next_step) # choices) fallback =
     (if rule_holds number_at rule then Some next_step else route number_at choices fallback)"

text \<open>
  The variable of the script's rule: the \<^verbatim>\<open>Value\<close> of entry 0 of \<^verbatim>\<open>TrainingMetrics\<close> in
  the results of the payload the query Lambda returned.
\<close>

definition training_metric :: pyval where
  "training_metric =
     StepOutputVar ''Query Training Results''
       [Key ''QueryTrainingResults'', Key ''Payload'', Key ''results'',
        Key ''TrainingMetrics'', Index 0, Key ''Value'']"

section \<open>An example run\<close>

text \<open>
  A small world to run the model in: an image detail file, the input data, a hyperparameters
  file, a pipeline whose source stage has the two source actions, and services that accept
  every call. The library functions are stand-ins that tell the texts apart.
\<close>

definition example_env :: env where
  "example_env = \<lparr>
     region_name = Some ''eu-west-1'',
     retrieve = (\<lambda>region framework version.
        case region of None \<Rightarrow> Inl ValueError | Some r \<Rightarrow> Inr (framework @ ''.'' @ r)),
     dataset_format_csv = PDict [(''csv'', PDict [(''header'', PBool True)])],
     json_dumps = (\<lambda>v. case v of PDict kvs \<Rightarrow> concat (map fst kvs) | _ \<Rightarrow> ''?''),
     json_loads = (\<lambda>text.
        if text = ''I'' then Inr (PDict [(''ImageURI'', PStr ''repo/image:1'')])
        else if text = ''D'' then Inr (PDict [
          (''TrainingUri'', PStr ''s3://data/train.csv''),
          (''ValidationUri'', PStr ''s3://data/val.csv''),
          (''BaselineUri'', PStr ''s3://data/baseline.csv'')])
        else if text = ''H'' then Inr (PDict [(''eta'', PFloat 0.5), (''seed'', PInt 7)])
        else Inl (JSONDecodeError text)),
     py_str = (\<lambda>v. case v of PInt n \<Rightarrow> (if n = 7 then ''7'' else ''int'')
                       | PFloat x \<Rightarrow> (if x = 0.5 then ''0.5'' else ''float'')
                       | PStr s \<Rightarrow> s | _ \<Rightarrow> ''other''),
     definition_to_json = (\<lambda>g. case g of Chain steps \<Rightarrow> ''chain'' | _ \<Rightarrow> ''state''),
     get_pipeline_state = (\<lambda>name. Inr [
        \<lparr>actionStates = [
            \<lparr>actionName = ''GitSource'', currentRevision = Some ''c0ffee''\<rparr>,
            \<lparr>actionName = ''DataSource'', currentRevision = Some ''v3''\<rparr>],
         latestExecution = Some ''exec-1''\<rparr>]),
     attach_error = (\<lambda>arn. None),
     update_error = (\<lambda>arn g. None),
     mkdir_error = (\<lambda>p. None),
     open_w_error = (\<lambda>p. None)\<rparr>"

definition example_args :: args where
  "example_args = \<lparr>
     git_branch = ''master'',
     pipeline_name = ''pipe'',
     model_name = ''nyctaxi'',
     deploy_role = ''deploy'',
     sagemaker_role = ''sm'',
     sagemaker_bucket = ''bucket'',
     data_dir = ''data'',
     output_dir = ''out'',
     ecr_dir = Some ''ecr'',
     kms_key_id = ''key'',
     workflow_pipeline_arn = ''arn:wf'',
     create_experiment_function_name = ''create-fn'',
     query_training_function_name = ''query-fn''\<rparr>"

definition example_world :: world where
  "example_world = \<lparr>
     files = [''ecr/imageDetail.json'' \<mapsto> ''I'', ''data/inputData.json'' \<mapsto> ''D'',
              ''data/hyperparameters.json'' \<mapsto> ''H''],
     dirs = {''ecr'', ''data''},
     trace = []\<rparr>"

text \<open>
  The same world without the input data, and the same services with an update that is
  refused for a graph that is a Chain and accepted for any other.
\<close>

definition example_world_no_input :: world where
  "example_world_no_input =
     example_world\<lparr>files := (files example_world)(''data/inputData.json'' := None)\<rparr>"

definition example_env_update_denied :: env where
  "example_env_update_denied =
     example_env\<lparr>update_error := (\<lambda>arn graph.
        case graph of Chain steps \<Rightarrow> Some (ClientError ''AccessDenied'') | _ \<Rightarrow> None)\<rparr>"

text \<open>
  Services whose pipeline reports other revisions and another execution, and a run that is
  given no image directory and finds no hyperparameters file and an output directory already
  there.
\<close>

definition example_env_other_pipeline :: env where
  "example_env_other_pipeline =
     example_env\<lparr>
       get_pipeline_state := (\<lambda>name. Inr [
         \<lparr>actionStates = [
             \<lparr>actionName = ''DataSource'', currentRevision = Some ''v4''\<rparr>,
             \<lparr>actionName = ''GitSource'', currentRevision = Some ''decade''\<rparr>],
          latestExecution = Some ''exec-2''\<rparr>]),
       definition_to_json := (\<lambda>g. ''definition'')\<rparr>"

definition example_args_managed :: args where
  "example_args_managed = example_args\<lparr>ecr_dir := None\<rparr>"

definition example_world_plain :: world where
  "example_world_plain = \<lparr>
     files = [''data/inputData.json'' \<mapsto> ''D''],
     dirs = {''data'', ''out''},
     trace = []\<rparr>"

section \<open>Properties\<close>

subsection \<open>Sequencing\<close>

lemma seq_lift: "seq (lift r) f w = (case r of Inl e \<Rightarrow> (Inl e, w) | Inr x \<Rightarrow> f x w)"
  by (simp add: seq_def lift_def split: sum.splits)

lemma seq_ret: "seq (ret x) f = f x"
  by (rule ext) (simp add: seq_def ret_def)

lemma seq_assoc: "seq (seq m f) g = seq m (\<lambda>x. seq (f x) g)"
  by (rule ext) (simp add: seq_def split: prod.splits sum.splits)

lemma seq_InrE:
  assumes "seq m f w = (Inr y, w')"
  obtains x w1 where "m w = (Inr x, w1)" and "f x w1 = (Inr y, w')"
  using assms by (auto simp: seq_def split: prod.splits sum.splits)

lemma seq_cases:
  assumes "seq m f w = (r, w')"
  obtains (fail) e where "m w = (Inl e, w')" and "r = Inl e"
        | (go) x w1 where "m w = (Inr x, w1)" and "f x w1 = (r, w')"
  using assms by (auto simp: seq_def split: prod.splits sum.splits)

lemma main_decomp: "main env a = seq (prepare env a) (publish env a)"
  unfolding main_def prepare_def publish_def load_image_def load_hyperparameters_def
    output_data_of_def workflow_inputs_def Let_def
  by (simp add: seq_assoc seq_ret and_then_def split: option.splits)


subsection \<open>The primitive actions\<close>

lemma lift_Inr: "lift r w = (Inr x, w1) \<Longrightarrow> r = Inr x \<and> w1 = w"
  by (simp add: lift_def)

lemma ret_Inr: "ret x w = (Inr y, w1) \<Longrightarrow> y = x \<and> w1 = w"
  by (auto simp: ret_def)

lemma read_json_Inr:
  "read_json env p w = (Inr v, w1) \<Longrightarrow>
     \<exists>text. files w p = Some text \<and> json_loads env text = Inr v \<and>
       w1 = w\<lparr>trace := trace w @ [OpenRead p]\<rparr>"
  by (auto simp: read_json_def log_def split: option.splits)

lemma path_exists_Inr:
  "path_exists p w = (Inr b, w1) \<Longrightarrow> w1 = w \<and> b = (p \<in> dom (files w) \<or> p \<in> dirs w)"
  by (auto simp: path_exists_def)

lemma workflow_attach_Inr:
  "workflow_attach env arn w = (Inr u, w1) \<Longrightarrow>
     attach_error env arn = None \<and> w1 = w\<lparr>trace := trace w @ [AttachWorkflow arn]\<rparr>"
  by (auto simp: workflow_attach_def log_def split: option.splits)

lemma workflow_update_Inr:
  "workflow_update env arn g w = (Inr u, w1) \<Longrightarrow>
     update_error env arn g = None \<and> w1 = w\<lparr>trace := trace w @ [UpdateWorkflow arn g]\<rparr>"
  by (auto simp: workflow_update_def log_def split: option.splits)

lemma write_file_Inr:
  "write_file env p body w = (Inr u, w1) \<Longrightarrow>
     \<exists>text. body = Inr text \<and> open_w_error env p = None \<and>
       w1 = w\<lparr>files := (files w)(p \<mapsto> text), trace := trace w @ [WriteFile p text]\<rparr>"
  by (auto simp: write_file_def log_def split: option.splits sum.splits)

lemma ensure_dir_Inr:
  "(if \<not> found then mkdir env p else ret ()) w = (Inr u, w1) \<Longrightarrow>
     w1 = w\<lparr>dirs := (if found then dirs w else insert p (dirs w)),
            trace := trace w @ (if found then [] else [MkDir p])\<rparr>"
  by (auto simp: mkdir_def ret_def log_def split: option.splits if_splits)

subsection \<open>Quiet actions\<close>

lemma quiet_lift: "quiet (lift r)"
  by (simp add: quiet_def lift_def)

lemma quiet_ret: "quiet (ret x)"
  by (simp add: quiet_def ret_def)

lemma quiet_path_exists: "quiet (path_exists p)"
  by (simp add: quiet_def path_exists_def)

lemma quiet_read_json: "quiet (read_json env p)"
  by (auto simp: quiet_def read_json_def log_def split: option.splits)

lemma quiet_seq:
  assumes m: "quiet m" and f: "\<And>x. quiet (f x)"
  shows "quiet (seq m f)"
  unfolding quiet_def
proof (intro allI impI)
  fix w r w'
  assume run: "seq m f w = (r, w')"
  from run show "files w' = files w \<and> dirs w' = dirs w \<and>
     (\<exists>es. trace w' = trace w @ es \<and> (\<forall>e\<in>set es. is_read e))"
  proof (cases rule: seq_cases)
    case (fail e)
    with m show ?thesis by (simp add: quiet_def)
  next
    case (go x w1)
    from m go(1) obtain es1 where 1: "files w1 = files w" "dirs w1 = dirs w"
      "trace w1 = trace w @ es1" "\<forall>e\<in>set es1. is_read e"
      unfolding quiet_def by blast
    from f [of x] go(2) obtain es2 where 2: "files w' = files w1" "dirs w' = dirs w1"
      "trace w' = trace w1 @ es2" "\<forall>e\<in>set es2. is_read e"
      unfolding quiet_def by blast
    from 1 2 have "trace w' = trace w @ (es1 @ es2)" "\<forall>e\<in>set (es1 @ es2). is_read e"
      by auto
    with 1 2 show ?thesis by metis
  qed
qed

lemma quiet_if: "quiet m \<Longrightarrow> quiet n \<Longrightarrow> quiet (if c then m else n)"
  by simp

lemma quiet_case_option:
  "quiet m \<Longrightarrow> (\<And>d. quiet (n d)) \<Longrightarrow> quiet (case x of None \<Rightarrow> m | Some d \<Rightarrow> n d)"
  by (cases x) simp_all

lemma prepare_quiet: "quiet (prepare env a)"
  unfolding prepare_def load_image_def load_hyperparameters_def
  by (intro quiet_seq quiet_if quiet_case_option quiet_lift quiet_ret quiet_path_exists
      quiet_read_json)

subsection \<open>The first half of main\<close>

lemma load_image_Inr:
  assumes "load_image env a w = (Inr image_uri, w1)"
  shows "(ecr_given a \<longrightarrow>
          (\<exists>t detail. files w (image_path a) = Some t \<and> json_loads env t = Inr detail
               \<and> getitem detail ''ImageURI'' = Inr image_uri))
      \<and> (\<not> ecr_given a \<longrightarrow>
          (\<exists>uri. get_training_image env (region_name env) = Inr uri \<and> image_uri = PStr uri))
      \<and> w1 = w\<lparr>trace := trace w @ (if ecr_given a then [OpenRead (image_path a)] else [])\<rparr>"
proof (cases "ecr_given a")
  case True
  then obtain d where d: "ecr_dir a = Some d" "d \<noteq> []"
    by (auto simp: ecr_given_def split: option.splits)
  with assms have "seq (read_json env (image_path a)) (\<lambda>image_detail.
            lift (getitem image_detail ''ImageURI'')) w = (Inr image_uri, w1)"
    by (simp add: load_image_def image_path_def)
  then show ?thesis using True
    by (auto elim!: seq_InrE dest!: read_json_Inr lift_Inr)
next
  case False
  with assms have "lift (and_then (get_training_image env (region_name env)) (\<lambda>uri. Inr (PStr uri))) w
      = (Inr image_uri, w1)"
    by (auto simp: load_image_def ecr_given_def split: option.splits)
  then show ?thesis using False
    by (auto dest!: lift_Inr simp: and_then_def split: sum.splits)
qed

lemma load_hyperparameters_Inr:
  assumes "load_hyperparameters env a w = (Inr hyperparameters, w1)"
  shows "(hyper_found a w \<longrightarrow>
          (\<exists>t loaded. files w (hyper_path a) = Some t \<and> json_loads env t = Inr loaded
               \<and> str_values (py_str env) loaded = Inr hyperparameters))
      \<and> (\<not> hyper_found a w \<longrightarrow> hyperparameters = PDict [])
      \<and> w1 = w\<lparr>trace := trace w @ (if hyper_found a w then [OpenRead (hyper_path a)] else [])\<rparr>"
  using assms unfolding load_hyperparameters_def hyper_path_def [symmetric]
  by (auto elim!: seq_InrE dest!: read_json_Inr lift_Inr path_exists_Inr
      simp: hyper_found_def ret_def split: if_splits)

lemma hyper_found_trace: "hyper_found a (w\<lparr>trace := t\<rparr>) = hyper_found a w"
  by (simp add: hyper_found_def)

lemma output_found_trace: "output_found a (w\<lparr>trace := t\<rparr>) = output_found a w"
  by (simp add: output_found_def)

lemma prepare_Inr:
  assumes "prepare env a w = (Inr (image_uri, job_id, git, dv, graph), w1)"
  shows "\<exists>input_text input_data revision hyperparameters baseline training.
      files w (input_path a) = Some input_text
    \<and> json_loads env input_text = Inr input_data
    \<and> (\<exists>v. getitem input_data ''TrainingUri'' = Inr v)
    \<and> (\<exists>v. getitem input_data ''ValidationUri'' = Inr v)
    \<and> (\<exists>v. getitem input_data ''BaselineUri'' = Inr v)
    \<and> (ecr_given a \<longrightarrow>
          (\<exists>t detail. files w (image_path a) = Some t \<and> json_loads env t = Inr detail
               \<and> getitem detail ''ImageURI'' = Inr image_uri))
    \<and> (\<not> ecr_given a \<longrightarrow>
          (\<exists>uri. get_training_image env (region_name env) = Inr uri \<and> image_uri = PStr uri))
    \<and> get_pipeline_revision env (pipeline_name a) = Inr revision
    \<and> revision_getitem revision ''JobId'' = Inr job_id
    \<and> revision_getitem revision ''GitSource'' = Inr git
    \<and> revision_getitem revision ''DataSource'' = Inr dv
    \<and> (hyper_found a w \<longrightarrow>
          (\<exists>t loaded. files w (hyper_path a) = Some t \<and> json_loads env t = Inr loaded
               \<and> str_values (py_str env) loaded = Inr hyperparameters))
    \<and> (\<not> hyper_found a w \<longrightarrow> hyperparameters = PDict [])
    \<and> create_baseline_step env input_data execution_input_schema (region_name env)
          (sagemaker_role a) = Inr baseline
    \<and> create_training_step image_uri hyperparameters input_data (output_data_of a job_id)
          execution_input_schema (query_training_function_name a) (region_name env)
          (sagemaker_role a) = Inr training
    \<and> graph = create_graph (create_experiment_step (create_experiment_function_name a))
          baseline training
    \<and> w1 = w\<lparr>trace := trace w @ config_reads a w\<rparr>"
  using assms
  unfolding prepare_def input_path_def [symmetric]
  apply (elim seq_InrE)
  apply (drule load_image_Inr load_hyperparameters_Inr read_json_Inr lift_Inr ret_Inr)+
  apply (elim conjE exE)
  apply (simp only: prod.inject)
  apply (elim conjE)
  apply hypsubst
  apply (simp add: config_reads_def hyper_found_trace)
  apply blast
  done

subsection \<open>The second half of main\<close>

lemma get_prd_params_Inr:
  "\<exists>params. get_prd_params nm jid rl img kid = Inr params"
  by (simp add: get_prd_params_def get_dev_params_def)

lemma publish_Inr:
  assumes "publish env a (image_uri, job_id, git, dv, graph) w1 = (Inr u, w')"
  shows "\<exists>params.
      attach_error env (workflow_pipeline_arn a) = None
    \<and> update_error env (workflow_pipeline_arn a) graph = None
    \<and> get_prd_params (model_name a) job_id (deploy_role a) image_uri (kms_key_id a) = Inr params
    \<and> files w' = (files w1)(
         path_join (output_dir a) ''workflow-graph.json'' \<mapsto> definition_to_json env graph,
         path_join (output_dir a) ''workflow-input.json'' \<mapsto>
           json_dumps env (PDict (workflow_inputs a job_id git dv)),
         path_join (output_dir a) ''deploy-model-dev.json'' \<mapsto>
           json_dumps env
             (get_dev_params (model_name a) job_id (deploy_role a) image_uri (kms_key_id a)),
         path_join (output_dir a) ''template-model-prd.json'' \<mapsto> json_dumps env params)
    \<and> dirs w' = (if output_found a w1 then dirs w1 else insert (output_dir a) (dirs w1))
    \<and> trace w' = trace w1 @
         [AttachWorkflow (workflow_pipeline_arn a),
          UpdateWorkflow (workflow_pipeline_arn a) graph]
         @ (if output_found a w1 then [] else [MkDir (output_dir a)])
         @ [WriteFile (path_join (output_dir a) ''workflow-graph.json'')
              (definition_to_json env graph),
            WriteFile (path_join (output_dir a) ''workflow-input.json'')
              (json_dumps env (PDict (workflow_inputs a job_id git dv))),
            WriteFile (path_join (output_dir a) ''deploy-model-dev.json'')
              (json_dumps env
                 (get_dev_params (model_name a) job_id (deploy_role a) image_uri (kms_key_id a))),
            WriteFile (path_join (output_dir a) ''template-model-prd.json'')
              (json_dumps env params)]"
proof -
  obtain params where params:
    "get_prd_params (model_name a) job_id (deploy_role a) image_uri (kms_key_id a) = Inr params"
    using get_prd_params_Inr by blast
  show ?thesis
    using assms
    unfolding publish_def prod.case params
    apply (elim seq_InrE)
    apply (drule workflow_attach_Inr workflow_update_Inr path_exists_Inr write_file_Inr
        ensure_dir_Inr)+
    apply (elim conjE exE)
    apply hypsubst
    apply (simp add: output_found_def and_then_def)
    done
qed

lemma publish_shape:
  assumes "publish env a (image_uri, job_id, git, dv, graph) w1 = (r, w')"
  shows "\<exists>es. trace w' = trace w1 @ AttachWorkflow (workflow_pipeline_arn a) # es \<and>
     (es = [] \<and> (\<exists>e. r = Inl e) \<and> files w' = files w1 \<and> dirs w' = dirs w1 \<or>
      (\<exists>arts. es = UpdateWorkflow (workflow_pipeline_arn a) graph # arts \<and>
         (\<forall>e\<in>set arts. is_artifact e) \<and>
         (update_error env (workflow_pipeline_arn a) graph \<noteq> None \<longrightarrow>
            arts = [] \<and> (\<exists>e. r = Inl e) \<and> files w' = files w1 \<and> dirs w' = dirs w1)))"
  using assms
  unfolding publish_def
  by (auto simp: seq_def workflow_attach_def workflow_update_def path_exists_def mkdir_def
        write_file_def ret_def log_def
      split: option.splits sum.splits if_splits prod.splits)

subsection \<open>Dictionaries\<close>

lemma map_of_dict_update_all:
  "distinct (map fst kw) \<Longrightarrow> map_of (dict_update_all d kw) = map_of d ++ map_of kw"
proof (induction kw arbitrary: d)
  case Nil
  then show ?case by (simp add: dict_update_all_def)
next
  case (Cons p kw)
  obtain k v where p: "p = (k, v)" by (cases p)
  from Cons.prems have nk: "k \<notin> fst ` set kw" and dk: "distinct (map fst kw)"
    by (auto simp: p)
  have "dict_update_all d (p # kw) = dict_update_all (AList.update k v d) kw"
    by (simp add: dict_update_all_def p)
  then have "map_of (dict_update_all d (p # kw)) = map_of (AList.update k v d) ++ map_of kw"
    using Cons.IH [OF dk] by simp
  also have "\<dots> = map_of d ++ map_of (p # kw)"
  proof
    fix x
    from nk have none: "map_of kw k = None"
      by (simp add: map_of_eq_None_iff)
    show "(map_of (AList.update k v d) ++ map_of kw) x = (map_of d ++ map_of (p # kw)) x"
      using none by (cases "x = k") (simp_all add: p map_add_def update_conv' split: option.splits)
  qed
  finally show ?case .
qed

lemma keys_dict_update_all:
  "set (map fst (dict_update_all d kw)) = set (map fst d) \<union> set (map fst kw)"
proof (induction kw arbitrary: d)
  case Nil
  then show ?case by (simp add: dict_update_all_def)
next
  case (Cons p kw)
  obtain k v where p: "p = (k, v)" by (cases p)
  have "dict_update_all d (p # kw) = dict_update_all (AList.update k v d) kw"
    by (simp add: dict_update_all_def p)
  then show ?case
    using Cons.IH [of "AList.update k v d"] by (auto simp: p update_keys)
qed

subsection \<open>What the builders return\<close>

lemma and_then_Inr: "and_then r f = Inr y \<Longrightarrow> \<exists>x. r = Inr x \<and> f x = Inr y"
  by (cases r) (simp_all add: and_then_def)

lemma create_baseline_step_Inr:
  assumes "create_baseline_step env input_data execution_input region role = Inr b"
  shows "\<exists>processor job_name inputs outputs config tags catches.
     b = ProcessingStep ''Baseline Job'' processor job_name inputs outputs config tags catches"
  using assms unfolding create_baseline_step_def Let_def
  by (auto dest!: and_then_Inr)

lemma create_training_step_Inr:
  assumes "create_training_step image_uri hyperparameters input_data output_data execution_input
     fn region role = Inr t"
  shows "\<exists>merged model_output_uri estimator data job_name config tags result_path catches
       input_path model model_name model_result_path query_params query_result_path.
     merge_hyperparameters hyperparameters = Inr merged
   \<and> getitem output_data ''ModelOutputUri'' = Inr model_output_uri
   \<and> est_image_uri estimator = image_uri
   \<and> est_output_path estimator = model_output_uri
   \<and> est_hyperparameters estimator = merged
   \<and> t = Chain [
       TrainingStep ''Training Job'' estimator data job_name config tags result_path catches,
       ModelStep ''Save Model'' input_path model model_name model_result_path,
       LambdaStep ''Query Training Results'' query_params query_result_path,
       Choice ''RMSE < 10''
         [(NumericLessThan training_metric 10, Succeed ''Model Error Acceptable'')]
         (Some (Fail ''Model Error Too Low'' None (Some ''RMSE accuracy higher than threshold'')))]"
  using assms unfolding create_training_step_def Let_def training_metric_def
  by (auto dest!: and_then_Inr)

subsection \<open>Paths\<close>

lemma path_join_relative:
  "b \<noteq> [] \<Longrightarrow> hd b \<noteq> CHR ''/'' \<Longrightarrow>
     path_join a b = (if a = [] \<or> last a = CHR ''/'' then a else a @ ''/'') @ b"
  by (simp add: path_join_def)

lemma artifact_paths_distinct:
  "distinct [path_join d ''workflow-graph.json'', path_join d ''workflow-input.json'',
     path_join d ''deploy-model-dev.json'', path_join d ''template-model-prd.json'']"
  by (simp add: path_join_relative)

subsection \<open>Runs of main\<close>

lemma new_events_append: "trace w' = trace w @ es \<Longrightarrow> new_events w w' = es"
  by (simp add: new_events_def)

lemma config_reads_is_read: "e \<in> set (config_reads a w) \<Longrightarrow> is_read e"
  by (auto simp: config_reads_def split: if_splits)

lemma filter_config_reads: "filter is_artifact (config_reads a w) = []"
  by (simp add: config_reads_def)

lemma main_Inr:
  assumes "main env a w = (Inr u, w')"
  obtains image_uri job_id git dv graph w1 where
    "prepare env a w = (Inr (image_uri, job_id, git, dv, graph), w1)"
    "publish env a (image_uri, job_id, git, dv, graph) w1 = (Inr u, w')"
proof -
  from assms have "seq (prepare env a) (publish env a) w = (Inr u, w')"
    by (simp add: main_decomp)
  then obtain x w1 where "prepare env a w = (Inr x, w1)" "publish env a x w1 = (Inr u, w')"
    by (rule seq_InrE)
  then show ?thesis
    by (cases x) (auto intro: that)
qed

text \<open>A successful run: what it read, what it pushed, what it wrote.\<close>

lemma main_success:
  assumes "main env a w = (Inr u, w')"
  shows "\<exists>image_uri job_id git dv graph w1 params.
      prepare env a w = (Inr (image_uri, job_id, git, dv, graph), w1)
    \<and> attach_error env (workflow_pipeline_arn a) = None
    \<and> update_error env (workflow_pipeline_arn a) graph = None
    \<and> get_prd_params (model_name a) job_id (deploy_role a) image_uri (kms_key_id a) = Inr params
    \<and> files w' = (files w)(
         path_join (output_dir a) ''workflow-graph.json'' \<mapsto> definition_to_json env graph,
         path_join (output_dir a) ''workflow-input.json'' \<mapsto>
           json_dumps env (PDict (workflow_inputs a job_id git dv)),
         path_join (output_dir a) ''deploy-model-dev.json'' \<mapsto>
           json_dumps env
             (get_dev_params (model_name a) job_id (deploy_role a) image_uri (kms_key_id a)),
         path_join (output_dir a) ''template-model-prd.json'' \<mapsto> json_dumps env params)
    \<and> dirs w' = (if output_found a w then dirs w else insert (output_dir a) (dirs w))
    \<and> new_events w w' = config_reads a w @
         [AttachWorkflow (workflow_pipeline_arn a),
          UpdateWorkflow (workflow_pipeline_arn a) graph]
         @ (if output_found a w then [] else [MkDir (output_dir a)])
         @ [WriteFile (path_join (output_dir a) ''workflow-graph.json'')
              (definition_to_json env graph),
            WriteFile (path_join (output_dir a) ''workflow-input.json'')
              (json_dumps env (PDict (workflow_inputs a job_id git dv))),
            WriteFile (path_join (output_dir a) ''deploy-model-dev.json'')
              (json_dumps env
                 (get_dev_params (model_name a) job_id (deploy_role a) image_uri (kms_key_id a))),
            WriteFile (path_join (output_dir a) ''template-model-prd.json'')
              (json_dumps env params)]"
proof -
  from assms obtain image_uri job_id git dv graph w1 where
    prep: "prepare env a w = (Inr (image_uri, job_id, git, dv, graph), w1)" and
    pub: "publish env a (image_uri, job_id, git, dv, graph) w1 = (Inr u, w')"
    by (rule main_Inr)
  from prepare_Inr [OF prep] have w1: "w1 = w\<lparr>trace := trace w @ config_reads a w\<rparr>"
    by blast
  from publish_Inr [OF pub] obtain params where
    att: "attach_error env (workflow_pipeline_arn a) = None"
    and upd: "update_error env (workflow_pipeline_arn a) graph = None"
    and params: "get_prd_params (model_name a) job_id (deploy_role a) image_uri (kms_key_id a)
       = Inr params"
    and f: "files w' = (files w1)(
         path_join (output_dir a) ''workflow-graph.json'' \<mapsto> definition_to_json env graph,
         path_join (output_dir a) ''workflow-input.json'' \<mapsto>
           json_dumps env (PDict (workflow_inputs a job_id git dv)),
         path_join (output_dir a) ''deploy-model-dev.json'' \<mapsto>
           json_dumps env
             (get_dev_params (model_name a) job_id (deploy_role a) image_uri (kms_key_id a)),
         path_join (output_dir a) ''template-model-prd.json'' \<mapsto> json_dumps env params)"
    and d: "dirs w' = (if output_found a w1 then dirs w1 else insert (output_dir a) (dirs w1))"
    and t: "trace w' = trace w1 @
         [AttachWorkflow (workflow_pipeline_arn a),
          UpdateWorkflow (workflow_pipeline_arn a) graph]
         @ (if output_found a w1 then [] else [MkDir (output_dir a)])
         @ [WriteFile (path_join (output_dir a) ''workflow-graph.json'')
              (definition_to_json env graph),
            WriteFile (path_join (output_dir a) ''workflow-input.json'')
              (json_dumps env (PDict (workflow_inputs a job_id git dv))),
            WriteFile (path_join (output_dir a) ''deploy-model-dev.json'')
              (json_dumps env
                 (get_dev_params (model_name a) job_id (deploy_role a) image_uri (kms_key_id a))),
            WriteFile (path_join (output_dir a) ''template-model-prd.json'')
              (json_dumps env params)]"
    by blast
  have found: "output_found a w1 = output_found a w"
    by (simp add: w1 output_found_trace)
  have ne: "new_events w w' = config_reads a w @
         [AttachWorkflow (workflow_pipeline_arn a),
          UpdateWorkflow (workflow_pipeline_arn a) graph]
         @ (if output_found a w then [] else [MkDir (output_dir a)])
         @ [WriteFile (path_join (output_dir a) ''workflow-graph.json'')
              (definition_to_json env graph),
            WriteFile (path_join (output_dir a) ''workflow-input.json'')
              (json_dumps env (PDict (workflow_inputs a job_id git dv))),
            WriteFile (path_join (output_dir a) ''deploy-model-dev.json'')
              (json_dumps env
                 (get_dev_params (model_name a) job_id (deploy_role a) image_uri (kms_key_id a))),
            WriteFile (path_join (output_dir a) ''template-model-prd.json'')
              (json_dumps env params)]"
    by (rule new_events_append) (simp add: t found, simp add: w1)
  have fd: "files w1 = files w" "dirs w1 = dirs w"
    by (simp_all add: w1)
  show ?thesis
    apply (rule exI [of _ image_uri], rule exI [of _ job_id], rule exI [of _ git],
        rule exI [of _ dv], rule exI [of _ graph], rule exI [of _ w1], rule exI [of _ params])
    using prep att upd params f d ne unfolding found fd by simp
qed

lemma main_success_pushed:
  assumes "main env a w = (Inr u, w')"
  shows "\<exists>graph. UpdateWorkflow (workflow_pipeline_arn a) graph \<in> set (new_events w w')"
proof -
  from main_success [OF assms] obtain graph es1 es2 where
    "new_events w w' = es1 @ [AttachWorkflow (workflow_pipeline_arn a),
          UpdateWorkflow (workflow_pipeline_arn a) graph] @ es2"
    by blast
  then have "UpdateWorkflow (workflow_pipeline_arn a) graph \<in> set (new_events w w')"
    by simp
  then show ?thesis ..
qed

text \<open>Any run: either it stopped while it was only reading, or it got to the workflow service.\<close>

lemma main_events:
  assumes "main env a w = (r, w')"
  shows "((\<exists>e. r = Inl e) \<and> files w' = files w \<and> dirs w' = dirs w
          \<and> (\<forall>e\<in>set (new_events w w'). is_read e))
       \<or> (\<exists>image_uri job_id git dv graph w1 es.
            prepare env a w = (Inr (image_uri, job_id, git, dv, graph), w1)
          \<and> publish env a (image_uri, job_id, git, dv, graph) w1 = (r, w')
          \<and> new_events w w' = config_reads a w @ AttachWorkflow (workflow_pipeline_arn a) # es
          \<and> (es = [] \<and> (\<exists>e. r = Inl e) \<and> files w' = files w \<and> dirs w' = dirs w
              \<or> (\<exists>arts. es = UpdateWorkflow (workflow_pipeline_arn a) graph # arts
                    \<and> (\<forall>e\<in>set arts. is_artifact e)
                    \<and> (update_error env (workflow_pipeline_arn a) graph \<noteq> None \<longrightarrow>
                         arts = [] \<and> (\<exists>e. r = Inl e) \<and> files w' = files w
                         \<and> dirs w' = dirs w))))"
proof -
  from assms have "seq (prepare env a) (publish env a) w = (r, w')"
    by (simp add: main_decomp)
  then show ?thesis
  proof (cases rule: seq_cases)
    case (fail e)
    from prepare_quiet [of env a] fail(1) obtain es where
      "files w' = files w" "dirs w' = dirs w" "trace w' = trace w @ es" "\<forall>e\<in>set es. is_read e"
      unfolding quiet_def by blast
    with fail(2) show ?thesis
      by (simp add: new_events_append)
  next
    case (go x w1)
    obtain image_uri job_id git dv graph where x: "x = (image_uri, job_id, git, dv, graph)"
      by (cases x)
    from prepare_Inr [OF go(1) [unfolded x]] have w1: "w1 = w\<lparr>trace := trace w @ config_reads a w\<rparr>"
      by blast
    from publish_shape [OF go(2) [unfolded x]] obtain es where
      t: "trace w' = trace w1 @ AttachWorkflow (workflow_pipeline_arn a) # es" and
      es: "es = [] \<and> (\<exists>e. r = Inl e) \<and> files w' = files w1 \<and> dirs w' = dirs w1 \<or>
         (\<exists>arts. es = UpdateWorkflow (workflow_pipeline_arn a) graph # arts \<and>
           (\<forall>e\<in>set arts. is_artifact e) \<and>
           (update_error env (workflow_pipeline_arn a) graph \<noteq> None \<longrightarrow>
              arts = [] \<and> (\<exists>e. r = Inl e) \<and> files w' = files w1 \<and> dirs w' = dirs w1))"
      by blast
    have ne: "new_events w w' = config_reads a w @ AttachWorkflow (workflow_pipeline_arn a) # es"
      by (rule new_events_append) (simp add: t w1)
    have fd: "files w1 = files w" "dirs w1 = dirs w"
      by (simp_all add: w1)
    show ?thesis
      apply (rule disjI2)
      apply (rule exI [of _ image_uri], rule exI [of _ job_id], rule exI [of _ git],
        rule exI [of _ dv], rule exI [of _ graph], rule exI [of _ w1], rule exI [of _ es])
      using go x ne es unfolding fd by simp
  qed
qed

text \<open>The graph of an update call in a run is the graph the first half of main built.\<close>

lemma main_pushed_graph:
  assumes run: "main env a w = (r, w')"
    and ev: "UpdateWorkflow arn graph \<in> set (new_events w w')"
  obtains image_uri job_id git dv w1 where
    "prepare env a w = (Inr (image_uri, job_id, git, dv, graph), w1)"
    "arn = workflow_pipeline_arn a"
proof (cases "\<forall>e\<in>set (new_events w w'). is_read e")
  case True
  with ev have "is_read (UpdateWorkflow arn graph)" by blast
  then show ?thesis by simp
next
  case False
  with main_events [OF run] obtain image_uri job_id git dv g w1 es where
    prep: "prepare env a w = (Inr (image_uri, job_id, git, dv, g), w1)"
    and ne: "new_events w w' = config_reads a w @ AttachWorkflow (workflow_pipeline_arn a) # es"
    and es: "es = [] \<and> (\<exists>e. r = Inl e) \<and> files w' = files w \<and> dirs w' = dirs w
              \<or> (\<exists>arts. es = UpdateWorkflow (workflow_pipeline_arn a) g # arts
                    \<and> (\<forall>e\<in>set arts. is_artifact e)
                    \<and> (update_error env (workflow_pipeline_arn a) g \<noteq> None \<longrightarrow>
                         arts = [] \<and> (\<exists>e. r = Inl e) \<and> files w' = files w
                         \<and> dirs w' = dirs w))"
    by blast
  from ev ne have "UpdateWorkflow arn graph \<in> set (config_reads a w)
      \<or> UpdateWorkflow arn graph \<in> set es"
    by auto
  then have in_es: "UpdateWorkflow arn graph \<in> set es"
    using config_reads_is_read [of "UpdateWorkflow arn graph" a w] by auto
  with es obtain arts where arts: "es = UpdateWorkflow (workflow_pipeline_arn a) g # arts"
    "\<forall>e\<in>set arts. is_artifact e"
    by auto
  with in_es have "UpdateWorkflow arn graph = UpdateWorkflow (workflow_pipeline_arn a) g
      \<or> is_artifact (UpdateWorkflow arn graph)"
    by auto
  then have "arn = workflow_pipeline_arn a" "graph = g"
    by simp_all
  with prep show ?thesis
    by (auto intro: that)
qed

subsection \<open>The revision and the events of a successful run\<close>

lemma revision_pairs_keys:
  "revision_pairs actions = Inr pairs \<Longrightarrow> map fst pairs = map actionName actions"
proof (induction actions arbitrary: pairs)
  case Nil
  then show ?case by simp
next
  case (Cons r rs)
  then show ?case
    by (auto split: option.splits dest!: and_then_Inr)
qed

lemma get_pipeline_revision_Inr:
  assumes "get_pipeline_revision env p = Inr revision"
  shows "\<exists>stage stages job_id.
      get_pipeline_state env p = Inr (stage # stages)
    \<and> latestExecution stage = Some job_id
    \<and> map_of revision ''JobId'' = Some job_id
    \<and> (\<forall>k v. k \<noteq> ''JobId'' \<longrightarrow> map_of revision k = Some v \<longrightarrow>
          k \<in> actionName ` set (actionStates stage))"
proof -
  from assms obtain stage_states where
    st: "get_pipeline_state env p = Inr stage_states" and
    rest: "(case stage_states of
       [] \<Rightarrow> Inl IndexError
     | stage # _ \<Rightarrow>
         and_then (revision_pairs (actionStates stage)) (\<lambda>pairs.
         case latestExecution stage of
           None \<Rightarrow> Inl (KeyError ''latestExecution'')
         | Some pipeline_execution_id \<Rightarrow>
             Inr (AList.update ''JobId'' pipeline_execution_id (dict_update_all [] pairs))))
       = Inr revision"
    unfolding get_pipeline_revision_def Let_def by (auto dest!: and_then_Inr)
  from rest obtain stage stages where ss: "stage_states = stage # stages"
    by (cases stage_states) auto
  from rest ss obtain pairs job_id where
    pairs: "revision_pairs (actionStates stage) = Inr pairs" and
    job: "latestExecution stage = Some job_id" and
    rev: "revision = AList.update ''JobId'' job_id (dict_update_all [] pairs)"
    by (auto dest!: and_then_Inr split: option.splits)
  have "set (map fst (dict_update_all [] pairs)) = set (map fst pairs)"
    using keys_dict_update_all [of "[]" pairs] by simp
  also have "\<dots> = set (map actionName (actionStates stage))"
    by (simp only: revision_pairs_keys [OF pairs])
  also have "\<dots> = actionName ` set (actionStates stage)"
    by simp
  finally have keys:
    "set (map fst (dict_update_all [] pairs)) = actionName ` set (actionStates stage)" .
  have other: "k \<in> actionName ` set (actionStates stage)"
    if "k \<noteq> ''JobId''" "map_of revision k = Some v" for k v
  proof -
    from that have "map_of (dict_update_all [] pairs) k = Some v"
      by (simp add: rev update_conv')
    then have "(k, v) \<in> set (dict_update_all [] pairs)"
      by (rule map_of_SomeD)
    then have "fst (k, v) \<in> fst ` set (dict_update_all [] pairs)"
      by (rule imageI)
    with keys show ?thesis by simp
  qed
  have "map_of revision ''JobId'' = Some job_id"
    by (simp add: rev update_conv')
  with st ss job other show ?thesis
    by blast
qed

lemma is_read_not_artifact: "is_read e \<Longrightarrow> \<not> is_artifact e"
  by (cases e) simp_all

lemma revision_getitem_Inr: "revision_getitem revision k = Inr v \<Longrightarrow> map_of revision k = Some v"
  by (auto simp: revision_getitem_def split: option.splits)

lemma main_success_arts:
  assumes "main env a w = (Inr u, w')"
  obtains image_uri job_id git dv graph w1 arts where
    "prepare env a w = (Inr (image_uri, job_id, git, dv, graph), w1)"
    "new_events w w' = config_reads a w @ AttachWorkflow (workflow_pipeline_arn a)
         # UpdateWorkflow (workflow_pipeline_arn a) graph # arts"
    "\<forall>e\<in>set arts. is_artifact e"
    "WriteFile (path_join (output_dir a) ''workflow-graph.json'')
      (definition_to_json env graph) \<in> set arts"
proof -
  from main_success [OF assms] obtain image_uri job_id git dv graph w1 params where
    prep: "prepare env a w = (Inr (image_uri, job_id, git, dv, graph), w1)"
    and ne: "new_events w w' = config_reads a w @
         [AttachWorkflow (workflow_pipeline_arn a),
          UpdateWorkflow (workflow_pipeline_arn a) graph]
         @ (if output_found a w then [] else [MkDir (output_dir a)])
         @ [WriteFile (path_join (output_dir a) ''workflow-graph.json'')
              (definition_to_json env graph),
            WriteFile (path_join (output_dir a) ''workflow-input.json'')
              (json_dumps env (PDict (workflow_inputs a job_id git dv))),
            WriteFile (path_join (output_dir a) ''deploy-model-dev.json'')
              (json_dumps env
                 (get_dev_params (model_name a) job_id (deploy_role a) image_uri (kms_key_id a))),
            WriteFile (path_join (output_dir a) ''template-model-prd.json'')
              (json_dumps env params)]"
    by blast
  show ?thesis
    by (rule that [OF prep, of "(if output_found a w then [] else [MkDir (output_dir a)])
         @ [WriteFile (path_join (output_dir a) ''workflow-graph.json'')
              (definition_to_json env graph),
            WriteFile (path_join (output_dir a) ''workflow-input.json'')
              (json_dumps env (PDict (workflow_inputs a job_id git dv))),
            WriteFile (path_join (output_dir a) ''deploy-model-dev.json'')
              (json_dumps env
                 (get_dev_params (model_name a) job_id (deploy_role a) image_uri (kms_key_id a))),
            WriteFile (path_join (output_dir a) ''template-model-prd.json'')
              (json_dumps env params)]"]) (simp_all add: ne)
qed

subsection \<open>The example run\<close>

lemma example_prepare: "\<exists>g w. prepare example_env example_args example_world = (Inr g, w)"
  by (simp add: prepare_def load_image_def load_hyperparameters_def example_env_def example_args_def
    example_world_def seq_def lift_def ret_def read_json_def path_exists_def path_join_def log_def
    get_pipeline_revision_def and_then_def dict_update_all_def revision_getitem_def
    create_baseline_step_def create_training_step_def execution_input_getitem_def
    execution_input_schema_def output_data_of_def hp_def get_training_image_def Let_def)

lemma example_publish: "\<exists>w'. publish example_env example_args g w = (Inr (), w')"
  by (cases g) (simp add: publish_def example_env_def example_args_def
    seq_def ret_def path_exists_def path_join_def log_def mkdir_def write_file_def
    workflow_attach_def workflow_update_def and_then_def get_prd_params_def get_dev_params_def
    split: prod.splits)

lemma example_run: "\<exists>w'. main example_env example_args example_world = (Inr (), w')"
proof -
  obtain g w where "prepare example_env example_args example_world = (Inr g, w)"
    using example_prepare by blast
  moreover obtain w' where "publish example_env example_args g w = (Inr (), w')"
    using example_publish by blast
  ultimately show ?thesis
    by (simp add: main_decomp seq_def)
qed

lemma example_pushed:
  assumes "main example_env example_args example_world = (Inr u, w')"
  shows "\<exists>graph. UpdateWorkflow ''arn:wf'' graph \<in> set (new_events example_world w')"
proof -
  from main_success_pushed [OF assms] show ?thesis
    by (simp add: example_args_def)
qed

lemma main_update_refused:
  assumes prep: "prepare env a w = (Inr (image_uri, job_id, git, dv, graph), w1)"
    and att: "attach_error env (workflow_pipeline_arn a) = None"
    and upd: "update_error env (workflow_pipeline_arn a) graph = Some e"
  shows "\<exists>w'. main env a w = (Inl e, w')
     \<and> new_events w w' = config_reads a w
          @ [AttachWorkflow (workflow_pipeline_arn a),
             UpdateWorkflow (workflow_pipeline_arn a) graph]"
proof -
  from prepare_Inr [OF prep] have w1: "w1 = w\<lparr>trace := trace w @ config_reads a w\<rparr>"
    by blast
  have pub: "publish env a (image_uri, job_id, git, dv, graph) w1 =
      (Inl e, w1\<lparr>trace := trace w1 @ [AttachWorkflow (workflow_pipeline_arn a),
             UpdateWorkflow (workflow_pipeline_arn a) graph]\<rparr>)"
    by (simp add: publish_def seq_def workflow_attach_def workflow_update_def log_def att upd)
  have "main env a w = (Inl e, w1\<lparr>trace := trace w1 @ [AttachWorkflow (workflow_pipeline_arn a),
             UpdateWorkflow (workflow_pipeline_arn a) graph]\<rparr>)"
    by (simp add: main_decomp seq_def prep pub)
  moreover have "new_events w (w1\<lparr>trace := trace w1 @ [AttachWorkflow (workflow_pipeline_arn a),
             UpdateWorkflow (workflow_pipeline_arn a) graph]\<rparr>) = config_reads a w
          @ [AttachWorkflow (workflow_pipeline_arn a),
             UpdateWorkflow (workflow_pipeline_arn a) graph]"
    by (simp add: new_events_def w1)
  ultimately show ?thesis by blast
qed

lemma example_prepare_update_denied:
  "\<exists>g w. prepare example_env_update_denied example_args example_world = (Inr g, w)"
  by (simp add: prepare_def load_image_def load_hyperparameters_def example_env_def example_args_def
    example_world_def seq_def lift_def ret_def read_json_def path_exists_def path_join_def log_def
    get_pipeline_revision_def and_then_def dict_update_all_def revision_getitem_def
    create_baseline_step_def create_training_step_def execution_input_getitem_def
    execution_input_schema_def output_data_of_def hp_def get_training_image_def Let_def
    example_env_update_denied_def)

subsection \<open>More example runs, and what a run reads\<close>

lemma publish_succeeds:
  assumes "attach_error env (workflow_pipeline_arn a) = None"
    and "update_error env (workflow_pipeline_arn a) graph = None"
    and "mkdir_error env (output_dir a) = None"
    and "\<And>p. open_w_error env p = None"
  shows "\<exists>w'. publish env a (image_uri, job_id, git, dv, graph) w = (Inr (), w')"
  using assms get_prd_params_Inr [of "model_name a" job_id "deploy_role a" image_uri "kms_key_id a"]
  by (auto simp: publish_def seq_def ret_def path_exists_def mkdir_def write_file_def
    workflow_attach_def workflow_update_def and_then_def)

lemma main_succeeds:
  assumes "prepare env a w = (Inr x, w1)"
    and "attach_error env (workflow_pipeline_arn a) = None"
    and "\<And>graph. update_error env (workflow_pipeline_arn a) graph = None"
    and "mkdir_error env (output_dir a) = None"
    and "\<And>p. open_w_error env p = None"
  shows "\<exists>w'. main env a w = (Inr (), w')"
proof -
  obtain image_uri job_id git dv graph where x: "x = (image_uri, job_id, git, dv, graph)"
    by (cases x)
  from publish_succeeds [OF assms(2) assms(3) assms(4) assms(5)]
  obtain w' where "publish env a (image_uri, job_id, git, dv, graph) w1 = (Inr (), w')"
    by blast
  with assms(1) x show ?thesis
    by (simp add: main_decomp seq_def)
qed

lemmas example_eval =
  prepare_def load_image_def load_hyperparameters_def example_env_def example_args_def
  example_world_def seq_def lift_def ret_def read_json_def path_exists_def path_join_def log_def
  get_pipeline_revision_def and_then_def dict_update_all_def revision_getitem_def
  create_baseline_step_def create_training_step_def execution_input_getitem_def
  execution_input_schema_def output_data_of_def hp_def get_training_image_def Let_def

lemma example_prepare_other_pipeline:
  "\<exists>g w. prepare example_env_other_pipeline example_args example_world = (Inr g, w)"
  by (simp add: example_eval example_env_other_pipeline_def)

lemma example_prepare_managed:
  "\<exists>g w. prepare example_env example_args_managed example_world_plain = (Inr g, w)"
  by (simp add: example_eval example_args_managed_def example_world_plain_def)

lemma example_run_other_pipeline:
  "\<exists>w'. main example_env_other_pipeline example_args example_world = (Inr (), w')"
proof -
  obtain g w where "prepare example_env_other_pipeline example_args example_world = (Inr g, w)"
    using example_prepare_other_pipeline by blast
  then show ?thesis
    by (rule main_succeeds) (simp_all add: example_env_other_pipeline_def example_env_def)
qed

lemma example_run_managed:
  "\<exists>w'. main example_env example_args_managed example_world_plain = (Inr (), w')"
proof -
  obtain g w where "prepare example_env example_args_managed example_world_plain = (Inr g, w)"
    using example_prepare_managed by blast
  then show ?thesis
    by (rule main_succeeds) (simp_all add: example_env_def)
qed

lemma filter_read_config_reads: "filter is_read (config_reads a w) = config_reads a w"
  by (simp add: config_reads_def)

lemma merge_empty: "merge_hyperparameters (PDict []) = Inr hp"
  by (simp add: dict_update_all_def)

text \<open>The training step inside the graph that the first half of main built.\<close>

lemma prepare_training:
  assumes "prepare env a w = (Inr (image_uri, job_id, git, dv, graph), w1)"
  shows "\<exists>hyperparameters experiment baseline estimator data job_name config tags result_path
       catches rest jobs_catches.
      graph = Chain [experiment,
        Parallel ''SageMaker Jobs'' [baseline,
          Chain (TrainingStep ''Training Job'' estimator data job_name config tags result_path
                   catches # rest)]
          jobs_catches]
    \<and> est_image_uri estimator = image_uri
    \<and> merge_hyperparameters hyperparameters = Inr (est_hyperparameters estimator)
    \<and> (hyper_found a w \<longrightarrow>
          (\<exists>t loaded. files w (hyper_path a) = Some t \<and> json_loads env t = Inr loaded
               \<and> str_values (py_str env) loaded = Inr hyperparameters))
    \<and> (\<not> hyper_found a w \<longrightarrow> hyperparameters = PDict [])"
proof -
  from prepare_Inr [OF assms] obtain input_data hyperparameters baseline training where
    h1: "hyper_found a w \<longrightarrow>
          (\<exists>t loaded. files w (hyper_path a) = Some t \<and> json_loads env t = Inr loaded
               \<and> str_values (py_str env) loaded = Inr hyperparameters)"
    and h2: "\<not> hyper_found a w \<longrightarrow> hyperparameters = PDict []"
    and t: "create_training_step image_uri hyperparameters input_data (output_data_of a job_id)
          execution_input_schema (query_training_function_name a) (region_name env)
          (sagemaker_role a) = Inr training"
    and g: "graph = create_graph (create_experiment_step (create_experiment_function_name a))
          baseline training"
    by blast
  from create_training_step_Inr [OF t] obtain estimator data job_name config tags result_path
      catches rest where
    m: "merge_hyperparameters hyperparameters = Inr (est_hyperparameters estimator)"
    and i: "est_image_uri estimator = image_uri"
    and t': "training = Chain (TrainingStep ''Training Job'' estimator data job_name config tags
         result_path catches # rest)"
    by blast
  show ?thesis
    apply (rule exI [of _ hyperparameters])
    apply (rule exI [of _ "create_experiment_step (create_experiment_function_name a)"])
    apply (rule exI [of _ baseline], rule exI [of _ estimator], rule exI [of _ data],
        rule exI [of _ job_name], rule exI [of _ config], rule exI [of _ tags],
        rule exI [of _ result_path], rule exI [of _ catches], rule exI [of _ rest])
    using g t' i m h1 h2 by (simp add: create_graph_def)
qed

lemma success_reads:
  assumes "main env a w = (Inr u, w')"
  shows "filter is_read (new_events w w') =
        (if ecr_given a then [OpenRead (image_path a)] else [])
        @ [OpenRead (input_path a)]
        @ (if hyper_found a w then [OpenRead (hyper_path a)] else [])
    \<and> (\<exists>content input_data.
          files w (input_path a) = Some content \<and> json_loads env content = Inr input_data
        \<and> (\<exists>v. getitem input_data ''TrainingUri'' = Inr v)
        \<and> (\<exists>v. getitem input_data ''ValidationUri'' = Inr v)
        \<and> (\<exists>v. getitem input_data ''BaselineUri'' = Inr v))
    \<and> (\<exists>graph experiment baseline estimator data job_name config tags result_path catches rest
          jobs_catches hyperparameters.
          UpdateWorkflow (workflow_pipeline_arn a) graph \<in> set (new_events w w')
        \<and> graph = Chain [experiment,
            Parallel ''SageMaker Jobs'' [baseline,
              Chain (TrainingStep ''Training Job'' estimator data job_name config tags
                       result_path catches # rest)]
              jobs_catches]
        \<and> (ecr_given a \<longrightarrow>
              (\<exists>content detail. files w (image_path a) = Some content
                 \<and> json_loads env content = Inr detail
                 \<and> getitem detail ''ImageURI'' = Inr (est_image_uri estimator)))
        \<and> (\<not> ecr_given a \<longrightarrow>
              (\<exists>uri. retrieve env (region_name env) ''xgboost'' ''latest'' = Inr uri
                 \<and> est_image_uri estimator = PStr uri))
        \<and> merge_hyperparameters hyperparameters = Inr (est_hyperparameters estimator)
        \<and> (hyper_found a w \<longrightarrow>
              (\<exists>content loaded. files w (hyper_path a) = Some content
                 \<and> json_loads env content = Inr loaded
                 \<and> str_values (py_str env) loaded = Inr hyperparameters))
        \<and> (\<not> hyper_found a w \<longrightarrow>
              hyperparameters = PDict [] \<and> est_hyperparameters estimator = hp))"
proof -
  obtain image_uri job_id git dv graph w1 arts where
    prep: "prepare env a w = (Inr (image_uri, job_id, git, dv, graph), w1)"
    and ne: "new_events w w' = config_reads a w @ AttachWorkflow (workflow_pipeline_arn a)
         # UpdateWorkflow (workflow_pipeline_arn a) graph # arts"
    and arts: "\<forall>e\<in>set arts. is_artifact e"
    and "WriteFile (path_join (output_dir a) ''workflow-graph.json'')
      (definition_to_json env graph) \<in> set arts"
    by (rule main_success_arts [OF assms])
  have "filter is_read arts = []"
    using arts by (auto simp: filter_empty_conv dest: is_read_not_artifact)
  then have reads: "filter is_read (new_events w w') = config_reads a w"
    by (simp add: ne filter_read_config_reads)
  from prepare_Inr [OF prep] obtain input_text input_data where
    inp: "files w (input_path a) = Some input_text" "json_loads env input_text = Inr input_data"
      "\<exists>v. getitem input_data ''TrainingUri'' = Inr v"
      "\<exists>v. getitem input_data ''ValidationUri'' = Inr v"
      "\<exists>v. getitem input_data ''BaselineUri'' = Inr v"
    and img1: "ecr_given a \<longrightarrow>
          (\<exists>t detail. files w (image_path a) = Some t \<and> json_loads env t = Inr detail
               \<and> getitem detail ''ImageURI'' = Inr image_uri)"
    and img2: "\<not> ecr_given a \<longrightarrow>
          (\<exists>uri. get_training_image env (region_name env) = Inr uri \<and> image_uri = PStr uri)"
    by blast
  from prepare_training [OF prep] obtain hyperparameters first_step baseline estimator data
      job_name config tags result_path catches rest jobs_catches where
    g: "graph = Chain [first_step,
        Parallel ''SageMaker Jobs'' [baseline,
          Chain (TrainingStep ''Training Job'' estimator data job_name config tags result_path
                   catches # rest)]
          jobs_catches]"
    and i: "est_image_uri estimator = image_uri"
    and m: "merge_hyperparameters hyperparameters = Inr (est_hyperparameters estimator)"
    and h1: "hyper_found a w \<longrightarrow>
          (\<exists>t loaded. files w (hyper_path a) = Some t \<and> json_loads env t = Inr loaded
               \<and> str_values (py_str env) loaded = Inr hyperparameters)"
    and h2: "\<not> hyper_found a w \<longrightarrow> hyperparameters = PDict []"
    by blast
  have h3: "\<not> hyper_found a w \<longrightarrow> est_hyperparameters estimator = hp"
    using h2 m merge_empty by auto
  have ev: "UpdateWorkflow (workflow_pipeline_arn a) graph \<in> set (new_events w w')"
    by (simp add: ne)
  have first: "filter is_read (new_events w w') =
        (if ecr_given a then [OpenRead (image_path a)] else [])
        @ [OpenRead (input_path a)]
        @ (if hyper_found a w then [OpenRead (hyper_path a)] else [])"
    by (simp add: reads config_reads_def)
  have second: "\<exists>content input_data.
          files w (input_path a) = Some content \<and> json_loads env content = Inr input_data
        \<and> (\<exists>v. getitem input_data ''TrainingUri'' = Inr v)
        \<and> (\<exists>v. getitem input_data ''ValidationUri'' = Inr v)
        \<and> (\<exists>v. getitem input_data ''BaselineUri'' = Inr v)"
    using inp by blast
  have third: "\<exists>graph experiment baseline estimator data job_name config tags result_path catches
          rest jobs_catches hyperparameters.
          UpdateWorkflow (workflow_pipeline_arn a) graph \<in> set (new_events w w')
        \<and> graph = Chain [experiment,
            Parallel ''SageMaker Jobs'' [baseline,
              Chain (TrainingStep ''Training Job'' estimator data job_name config tags
                       result_path catches # rest)]
              jobs_catches]
        \<and> (ecr_given a \<longrightarrow>
              (\<exists>content detail. files w (image_path a) = Some content
                 \<and> json_loads env content = Inr detail
                 \<and> getitem detail ''ImageURI'' = Inr (est_image_uri estimator)))
        \<and> (\<not> ecr_given a \<longrightarrow>
              (\<exists>uri. retrieve env (region_name env) ''xgboost'' ''latest'' = Inr uri
                 \<and> est_image_uri estimator = PStr uri))
        \<and> merge_hyperparameters hyperparameters = Inr (est_hyperparameters estimator)
        \<and> (hyper_found a w \<longrightarrow>
              (\<exists>content loaded. files w (hyper_path a) = Some content
                 \<and> json_loads env content = Inr loaded
                 \<and> str_values (py_str env) loaded = Inr hyperparameters))
        \<and> (\<not> hyper_found a w \<longrightarrow>
              hyperparameters = PDict [] \<and> est_hyperparameters estimator = hp)"
    apply (rule exI [of _ graph], rule exI [of _ first_step], rule exI [of _ baseline],
        rule exI [of _ estimator], rule exI [of _ data], rule exI [of _ job_name],
        rule exI [of _ config], rule exI [of _ tags], rule exI [of _ result_path],
        rule exI [of _ catches], rule exI [of _ rest], rule exI [of _ jobs_catches],
        rule exI [of _ hyperparameters])
    using ev g img1 img2 m h1 h2 h3 unfolding i get_training_image_def by simp
  from first second third show ?thesis
    by (intro conjI)
qed


lemma load_hyperparameters_quiet: "quiet (load_hyperparameters env a)"
  unfolding load_hyperparameters_def
  by (intro quiet_seq quiet_if quiet_lift quiet_ret quiet_path_exists quiet_read_json)

lemma quiet_trace: "quiet m \<Longrightarrow> m w = (r, w') \<Longrightarrow> \<exists>es. trace w' = trace w @ es"
  unfolding quiet_def by blast

lemma read_json_cases:
  assumes "read_json env p w = (r, w1)"
  shows "(files w p = None \<and> (\<exists>e. r = Inl e) \<and> w1 = w)
       \<or> w1 = w\<lparr>trace := trace w @ [OpenRead p]\<rparr>"
  using assms by (auto simp: read_json_def log_def split: option.splits)

lemma load_image_trace:
  assumes "load_image env a w = (r, w1)"
  shows "files w1 = files w \<and> (\<exists>es. trace w1 = trace w @ es)"
proof -
  have "quiet (load_image env a)"
    unfolding load_image_def
    by (intro quiet_seq quiet_if quiet_case_option quiet_lift quiet_read_json)
  with assms show ?thesis
    unfolding quiet_def by blast
qed

text \<open>Where the first half of main can stop before it has opened the input data.\<close>

lemma prepare_input_read:
  assumes "prepare env a w = (r, w1)"
  shows "(\<exists>e. r = Inl e \<and> load_image env a w = (Inl e, w1))
       \<or> (files w (input_path a) = None \<and> (\<exists>e. r = Inl e))
       \<or> (\<exists>es. trace w1 = trace w @ es \<and> OpenRead (input_path a) \<in> set es)"
  using assms unfolding prepare_def input_path_def [symmetric]
proof (cases rule: seq_cases)
  case (fail e)
  then show ?thesis by blast
next
  case (go image_uri w0)
  from load_image_trace [OF go(1)] obtain es0 where
    w0: "files w0 = files w" "trace w0 = trace w @ es0"
    by blast
  from go(2) show ?thesis
  proof (cases rule: seq_cases)
    case (fail e)
    from read_json_cases [OF fail(1)] show ?thesis
    proof
      assume "files w0 (input_path a) = None \<and> (\<exists>e'. Inl e = Inl e') \<and> w1 = w0"
      with w0 fail(2) show ?thesis by simp
    next
      assume "w1 = w0\<lparr>trace := trace w0 @ [OpenRead (input_path a)]\<rparr>"
      with w0 have "trace w1 = trace w @ (es0 @ [OpenRead (input_path a)])"
        "OpenRead (input_path a) \<in> set (es0 @ [OpenRead (input_path a)])"
        by simp_all
      then show ?thesis by blast
    qed
  next
    case (go input_data w2)
    from read_json_Inr [OF go(1)] have w2: "w2 = w0\<lparr>trace := trace w0 @ [OpenRead (input_path a)]\<rparr>"
      by blast
    from go(2) have "\<exists>es. trace w1 = trace w2 @ es"
      by (rule quiet_trace [rotated])
        (intro quiet_seq quiet_if quiet_case_option quiet_lift quiet_ret quiet_path_exists
          quiet_read_json prepare_quiet load_hyperparameters_quiet)
    then obtain es2 where "trace w1 = trace w2 @ es2" by blast
    with w0 w2 have "trace w1 = trace w @ (es0 @ [OpenRead (input_path a)] @ es2)"
      "OpenRead (input_path a) \<in> set (es0 @ [OpenRead (input_path a)] @ es2)"
      by simp_all
    then show ?thesis by blast
  qed
qed

lemma main_input_read:
  assumes "main env a w = (r, w')"
  shows "OpenRead (input_path a) \<in> set (new_events w w')
     \<or> (\<exists>e. r = Inl e \<and> (load_image env a w = (Inl e, w') \<or> files w (input_path a) = None))"
proof -
  from assms have "seq (prepare env a) (publish env a) w = (r, w')"
    by (simp add: main_decomp)
  then show ?thesis
  proof (cases rule: seq_cases)
    case (fail e)
    from prepare_input_read [OF fail(1)] fail(2) show ?thesis
      by (auto simp: new_events_append)
  next
    case (go x w1)
    obtain image_uri job_id git dv graph where x: "x = (image_uri, job_id, git, dv, graph)"
      by (cases x)
    from prepare_Inr [OF go(1) [unfolded x]] have w1: "w1 = w\<lparr>trace := trace w @ config_reads a w\<rparr>"
      by blast
    from publish_shape [OF go(2) [unfolded x]] obtain es where
      "trace w' = trace w1 @ AttachWorkflow (workflow_pipeline_arn a) # es"
      by blast
    with w1 have "new_events w w' = config_reads a w @ AttachWorkflow (workflow_pipeline_arn a) # es"
      by (simp add: new_events_def)
    then have "OpenRead (input_path a) \<in> set (new_events w w')"
      by (simp add: config_reads_def)
    then show ?thesis ..
  qed
qed

subsection \<open>The hyperparameters of a run\<close>

lemma str_values_merge:
  assumes "str_values str loaded = Inr hyperparameters"
    and "merge_hyperparameters hyperparameters = Inr merged"
  shows "\<exists>kvs. loaded = PDict kvs
     \<and> merged = dict_update_all hp (map (\<lambda>(k, v). (k, PStr (str v))) kvs)"
  using assms by (cases loaded) (auto dest!: and_then_Inr split: if_splits)

lemma map_of_str_values:
  "map_of (map (\<lambda>(k, v). (k, PStr (str v))) kvs) k = map_option (\<lambda>v. PStr (str v)) (map_of kvs k)"
  by (induction kvs) auto

lemma keys_str_values: "map fst (map (\<lambda>(k, v). (k, PStr (str v))) kvs) = map fst kvs"
  by (induction kvs) auto

subsection \<open>What the graph depends on\<close>

text \<open>
  The builders are functions of their arguments and of the libraries they call; they take no
  world and return none. Of the libraries, \<^verbatim>\<open>create_baseline_step\<close> uses the image lookup,
  \<^verbatim>\<open>json.dumps\<close> and the dataset format only, and \<^verbatim>\<open>create_training_step\<close> uses none; of
  \<^verbatim>\<open>output_data\<close> the training step reads the key \<^verbatim>\<open>ModelOutputUri\<close> only, which does not
  hold the job id.
\<close>

lemma create_baseline_step_cong:
  assumes "retrieve env1 = retrieve env2" "json_dumps env1 = json_dumps env2"
    "dataset_format_csv env1 = dataset_format_csv env2"
  shows "create_baseline_step env1 input_data execution_input region role
       = create_baseline_step env2 input_data execution_input region role"
  using assms by (simp add: create_baseline_step_def)

lemma create_training_step_output:
  assumes "getitem output_data1 ''ModelOutputUri'' = getitem output_data2 ''ModelOutputUri''"
  shows "create_training_step image_uri hyperparameters input_data output_data1 execution_input
           fn region1 role
       = create_training_step image_uri hyperparameters input_data output_data2 execution_input
           fn region2 role"
  using assms by (simp add: create_training_step_def)

lemma model_output_uri_of:
  "getitem (output_data_of a job_id1) ''ModelOutputUri''
     = getitem (output_data_of a job_id2) ''ModelOutputUri''"
  by (simp add: output_data_of_def)

lemma execution_input_getitem_Inr:
  "execution_input_getitem schema name = Inr v \<Longrightarrow> v = ExecutionInputVar name"
  by (auto simp: execution_input_getitem_def split: if_splits)

lemma create_baseline_step_symbolic:
  assumes "create_baseline_step env input_data execution_input region role = Inr b"
  shows "\<exists>processor inputs catches.
     b = ProcessingStep ''Baseline Job'' processor (ExecutionInputVar ''BaselineJobName'') inputs
       [\<lparr>po_source = ''/opt/ml/processing/output'',
         po_destination = ExecutionInputVar ''BaselineOutputUri'',
         po_output_name = ''monitoring_output''\<rparr>]
       (PDict [(''ExperimentName'', ExecutionInputVar ''ExperimentName''),
               (''TrialName'', ExecutionInputVar ''TrialName''),
               (''TrialComponentDisplayName'', PStr ''Baseline'')])
       (PDict [(''GitBranch'', ExecutionInputVar ''GitBranch''),
               (''GitCommitHash'', ExecutionInputVar ''GitCommitHash''),
               (''DataVersionId'', ExecutionInputVar ''DataVersionId'')])
       catches"
  using assms unfolding create_baseline_step_def Let_def
  by (auto dest!: and_then_Inr execution_input_getitem_Inr)

lemma create_training_step_symbolic:
  assumes "create_training_step image_uri hyperparameters input_data output_data execution_input
     fn region role = Inr t"
  shows "\<exists>estimator data catches model query_params fallback.
     t = Chain [
       TrainingStep ''Training Job'' estimator data (ExecutionInputVar ''TrainingJobName'')
         (PDict [(''ExperimentName'', ExecutionInputVar ''ExperimentName''),
                 (''TrialName'', ExecutionInputVar ''TrialName''),
                 (''TrialComponentDisplayName'', PStr ''Training'')])
         (PDict [(''GitBranch'', ExecutionInputVar ''GitBranch''),
                 (''GitCommitHash'', ExecutionInputVar ''GitCommitHash''),
                 (''DataVersionId'', ExecutionInputVar ''DataVersionId'')])
         ''$.TrainingResults'' catches,
       ModelStep ''Save Model'' ''$.TrainingResults'' model
         (ExecutionInputVar ''TrainingJobName'') ''$.ModelStepResults'',
       LambdaStep ''Query Training Results'' query_params ''$.QueryTrainingResults'',
       Choice ''RMSE < 10''
         [(NumericLessThan
             (StepOutputVar ''Query Training Results''
                [Key ''QueryTrainingResults'', Key ''Payload'', Key ''results'',
                 Key ''TrainingMetrics'', Index 0, Key ''Value''])
             10,
           Succeed ''Model Error Acceptable'')]
         fallback]"
  using assms unfolding create_training_step_def Let_def
  by (auto dest!: and_then_Inr execution_input_getitem_Inr)


lemma prepare_graph_cong:
  assumes p1: "prepare env1 a w1 = (Inr (image_uri1, job_id1, git1, dv1, graph1), v1)"
    and p2: "prepare env2 a w2 = (Inr (image_uri2, job_id2, git2, dv2, graph2), v2)"
    and lib: "region_name env1 = region_name env2" "retrieve env1 = retrieve env2"
      "dataset_format_csv env1 = dataset_format_csv env2" "json_dumps env1 = json_dumps env2"
      "json_loads env1 = json_loads env2" "py_str env1 = py_str env2"
    and fs: "files w1 = files w2" "dirs w1 = dirs w2"
  shows "graph1 = graph2 \<and> image_uri1 = image_uri2"
proof -
  from prepare_Inr [OF p1] obtain input_text1 input_data1 hyperparameters1 baseline1 training1
    where in1: "files w1 (input_path a) = Some input_text1"
      "json_loads env1 input_text1 = Inr input_data1"
    and im1: "ecr_given a \<longrightarrow>
          (\<exists>t detail. files w1 (image_path a) = Some t \<and> json_loads env1 t = Inr detail
               \<and> getitem detail ''ImageURI'' = Inr image_uri1)"
      "\<not> ecr_given a \<longrightarrow>
          (\<exists>uri. get_training_image env1 (region_name env1) = Inr uri \<and> image_uri1 = PStr uri)"
    and h1: "hyper_found a w1 \<longrightarrow>
          (\<exists>t loaded. files w1 (hyper_path a) = Some t \<and> json_loads env1 t = Inr loaded
               \<and> str_values (py_str env1) loaded = Inr hyperparameters1)"
      "\<not> hyper_found a w1 \<longrightarrow> hyperparameters1 = PDict []"
    and b1: "create_baseline_step env1 input_data1 execution_input_schema (region_name env1)
          (sagemaker_role a) = Inr baseline1"
    and t1: "create_training_step image_uri1 hyperparameters1 input_data1
          (output_data_of a job_id1) execution_input_schema (query_training_function_name a)
          (region_name env1) (sagemaker_role a) = Inr training1"
    and g1: "graph1 = create_graph (create_experiment_step (create_experiment_function_name a))
          baseline1 training1"
    by blast
  from prepare_Inr [OF p2] obtain input_text2 input_data2 hyperparameters2 baseline2 training2
    where in2: "files w2 (input_path a) = Some input_text2"
      "json_loads env2 input_text2 = Inr input_data2"
    and im2: "ecr_given a \<longrightarrow>
          (\<exists>t detail. files w2 (image_path a) = Some t \<and> json_loads env2 t = Inr detail
               \<and> getitem detail ''ImageURI'' = Inr image_uri2)"
      "\<not> ecr_given a \<longrightarrow>
          (\<exists>uri. get_training_image env2 (region_name env2) = Inr uri \<and> image_uri2 = PStr uri)"
    and h2: "hyper_found a w2 \<longrightarrow>
          (\<exists>t loaded. files w2 (hyper_path a) = Some t \<and> json_loads env2 t = Inr loaded
               \<and> str_values (py_str env2) loaded = Inr hyperparameters2)"
      "\<not> hyper_found a w2 \<longrightarrow> hyperparameters2 = PDict []"
    and b2: "create_baseline_step env2 input_data2 execution_input_schema (region_name env2)
          (sagemaker_role a) = Inr baseline2"
    and t2: "create_training_step image_uri2 hyperparameters2 input_data2
          (output_data_of a job_id2) execution_input_schema (query_training_function_name a)
          (region_name env2) (sagemaker_role a) = Inr training2"
    and g2: "graph2 = create_graph (create_experiment_step (create_experiment_function_name a))
          baseline2 training2"
    by blast
  have input: "input_data1 = input_data2"
    using in1 in2 lib(5) fs(1) by simp
  have uri: "image_uri1 = image_uri2"
  proof (cases "ecr_given a")
    case True
    with im1(1) im2(1) show ?thesis using lib(5) fs(1) by auto
  next
    case False
    with im1(2) im2(2) show ?thesis using lib(1,2) by (auto simp: get_training_image_def)
  qed
  have found: "hyper_found a w1 = hyper_found a w2"
    using fs by (simp add: hyper_found_def)
  have hyper: "hyperparameters1 = hyperparameters2"
  proof (cases "hyper_found a w1")
    case True
    with h1(1) h2(1) found show ?thesis using lib(5,6) fs(1) by auto
  next
    case False
    with h1(2) h2(2) found show ?thesis by simp
  qed
  have "create_baseline_step env1 input_data1 execution_input_schema (region_name env1)
          (sagemaker_role a)
      = create_baseline_step env2 input_data2 execution_input_schema (region_name env2)
          (sagemaker_role a)"
    using create_baseline_step_cong [OF lib(2) lib(4) lib(3)] input lib(1) by simp
  with b1 b2 have baseline: "baseline1 = baseline2" by simp
  have "create_training_step image_uri1 hyperparameters1 input_data1
          (output_data_of a job_id1) execution_input_schema (query_training_function_name a)
          (region_name env1) (sagemaker_role a)
      = create_training_step image_uri2 hyperparameters2 input_data2
          (output_data_of a job_id2) execution_input_schema (query_training_function_name a)
          (region_name env2) (sagemaker_role a)"
    using create_training_step_output [OF model_output_uri_of [of a job_id1 job_id2]]
      input uri hyper by simp
  with t1 t2 have training: "training1 = training2" by simp
  from g1 g2 baseline training uri show ?thesis by simp
qed

lemma prepare_graph_symbolic:
  assumes p: "prepare env a w = (Inr (image_uri, job_id, git, dv, graph), v)"
  shows "\<exists>first_step processor inputs catches1 estimator data catches2 model query_params
         fallback.
     graph = Chain [first_step,
       Parallel ''SageMaker Jobs''
         [ProcessingStep ''Baseline Job'' processor (ExecutionInputVar ''BaselineJobName'') inputs
            [\<lparr>po_source = ''/opt/ml/processing/output'',
              po_destination = ExecutionInputVar ''BaselineOutputUri'',
              po_output_name = ''monitoring_output''\<rparr>]
            (PDict [(''ExperimentName'', ExecutionInputVar ''ExperimentName''),
                    (''TrialName'', ExecutionInputVar ''TrialName''),
                    (''TrialComponentDisplayName'', PStr ''Baseline'')])
            (PDict [(''GitBranch'', ExecutionInputVar ''GitBranch''),
                    (''GitCommitHash'', ExecutionInputVar ''GitCommitHash''),
                    (''DataVersionId'', ExecutionInputVar ''DataVersionId'')])
            catches1,
          Chain [
            TrainingStep ''Training Job'' estimator data (ExecutionInputVar ''TrainingJobName'')
              (PDict [(''ExperimentName'', ExecutionInputVar ''ExperimentName''),
                      (''TrialName'', ExecutionInputVar ''TrialName''),
                      (''TrialComponentDisplayName'', PStr ''Training'')])
              (PDict [(''GitBranch'', ExecutionInputVar ''GitBranch''),
                      (''GitCommitHash'', ExecutionInputVar ''GitCommitHash''),
                      (''DataVersionId'', ExecutionInputVar ''DataVersionId'')])
              ''$.TrainingResults'' catches2,
            ModelStep ''Save Model'' ''$.TrainingResults'' model
              (ExecutionInputVar ''TrainingJobName'') ''$.ModelStepResults'',
            LambdaStep ''Query Training Results'' query_params ''$.QueryTrainingResults'',
            Choice ''RMSE < 10''
              [(NumericLessThan
                  (StepOutputVar ''Query Training Results''
                     [Key ''QueryTrainingResults'', Key ''Payload'', Key ''results'',
                      Key ''TrainingMetrics'', Index 0, Key ''Value''])
                  10,
                Succeed ''Model Error Acceptable'')]
              fallback]]
         [Catch [''States.TaskFailed'']
            (Fail ''SageMaker Jobs failed'' (Some ''SageMakerJobsFailed'') None)]]"
proof -
  from prepare_Inr [OF p] obtain input_data hyperparameters baseline training
    where b: "create_baseline_step env input_data execution_input_schema (region_name env)
          (sagemaker_role a) = Inr baseline"
    and t: "create_training_step image_uri hyperparameters input_data
          (output_data_of a job_id) execution_input_schema (query_training_function_name a)
          (region_name env) (sagemaker_role a) = Inr training"
    and g: "graph = create_graph (create_experiment_step (create_experiment_function_name a))
          baseline training"
    by blast
  from create_baseline_step_symbolic [OF b] create_training_step_symbolic [OF t] g
  show ?thesis
    by (auto simp: create_graph_def)
qed

section \<open>The claims\<close>

text \<open>
  C1. For every set of inputs, the workflow graph built by main (the graph of its update
  call) is a Chain whose first step is the Lambda step \<open>Create Experiment\<close> and whose second
  step is a Parallel state with exactly two branches: the processing step \<open>Baseline Job\<close>,
  and a Chain of, in this order, the training step \<open>Training Job\<close>, the model step
  \<open>Save Model\<close>, the Lambda step \<open>Query Training Results\<close> and the Choice state
  \<open>RMSE < 10\<close>.
\<close>

theorem main_graph_shape:
  assumes "main env a w = (r, w')"
    and "UpdateWorkflow arn graph \<in> set (new_events w w')"
  shows "\<exists>experiment_params experiment_result_path
       processor baseline_job_name inputs outputs baseline_config baseline_tags baseline_catches
       estimator data job_name config tags result_path catches
       input_path model model_name model_result_path query_params query_result_path
       choices fallback jobs_catches.
     graph = Chain [
       LambdaStep ''Create Experiment'' experiment_params experiment_result_path,
       Parallel ''SageMaker Jobs'' [
         ProcessingStep ''Baseline Job'' processor baseline_job_name inputs outputs
           baseline_config baseline_tags baseline_catches,
         Chain [
           TrainingStep ''Training Job'' estimator data job_name config tags result_path catches,
           ModelStep ''Save Model'' input_path model model_name model_result_path,
           LambdaStep ''Query Training Results'' query_params query_result_path,
           Choice ''RMSE < 10'' choices fallback]]
         jobs_catches]"
proof -
  from assms obtain image_uri job_id git dv w1 where
    "prepare env a w = (Inr (image_uri, job_id, git, dv, graph), w1)"
    by (rule main_pushed_graph)
  from prepare_Inr [OF this] obtain input_data hyperparameters baseline training where
    b: "create_baseline_step env input_data execution_input_schema (region_name env)
          (sagemaker_role a) = Inr baseline" and
    t: "create_training_step image_uri hyperparameters input_data (output_data_of a job_id)
          execution_input_schema (query_training_function_name a) (region_name env)
          (sagemaker_role a) = Inr training" and
    g: "graph = create_graph (create_experiment_step (create_experiment_function_name a))
          baseline training"
    by blast
  from create_baseline_step_Inr [OF b] obtain processor baseline_job_name inputs outputs
      baseline_config baseline_tags baseline_catches where
    b': "baseline = ProcessingStep ''Baseline Job'' processor baseline_job_name inputs outputs
           baseline_config baseline_tags baseline_catches"
    by blast
  from create_training_step_Inr [OF t] obtain estimator data job_name config tags result_path
      catches input_path model model_name model_result_path query_params query_result_path where
    t': "training = Chain [
       TrainingStep ''Training Job'' estimator data job_name config tags result_path catches,
       ModelStep ''Save Model'' input_path model model_name model_result_path,
       LambdaStep ''Query Training Results'' query_params query_result_path,
       Choice ''RMSE < 10''
         [(NumericLessThan training_metric 10, Succeed ''Model Error Acceptable'')]
         (Some (Fail ''Model Error Too Low'' None (Some ''RMSE accuracy higher than threshold'')))]"
    by blast
  show ?thesis
    unfolding g b' t' create_graph_def create_experiment_step_def
    by (intro exI) (rule refl)
qed

theorem main_graph_shape_witness:
  "\<exists>w' graph experiment training_chain jobs_catches processor baseline_job_name inputs outputs
      baseline_config baseline_tags baseline_catches.
     main example_env example_args example_world = (Inr (), w')
   \<and> UpdateWorkflow ''arn:wf'' graph \<in> set (new_events example_world w')
   \<and> graph = Chain [experiment,
       Parallel ''SageMaker Jobs'' [
         ProcessingStep ''Baseline Job'' processor baseline_job_name inputs outputs
           baseline_config baseline_tags baseline_catches,
         training_chain]
         jobs_catches]"
proof -
  obtain w' where run: "main example_env example_args example_world = (Inr (), w')"
    using example_run by blast
  from example_pushed [OF run] obtain graph where
    ev: "UpdateWorkflow ''arn:wf'' graph \<in> set (new_events example_world w')"
    by blast
  from main_graph_shape [OF run ev] run ev show ?thesis
    by blast
qed

text \<open>
  C2. The accuracy-gated branch built by \<open>create_training_step\<close> is the Choice state
  \<open>RMSE < 10\<close> with one rule and a default: the rule compares the value of the first entry
  of TrainingMetrics in the payload of the query Lambda with the number 10, which is written
  in the script and comes from no argument, and leads to the Succeed state
  \<open>Model Error Acceptable\<close>; the default is the Fail state \<open>Model Error Too Low\<close>. So an
  execution goes to the Succeed state exactly when that value is less than 10 and to the Fail
  state in every other case.
\<close>

theorem choice_routes_on_threshold:
  assumes "create_training_step image_uri hyperparameters input_data output_data execution_input
     fn region role = Inr training"
  shows "\<exists>training_step model_step query_step choices fallback.
     training = Chain [training_step, model_step, query_step, Choice ''RMSE < 10'' choices fallback]
   \<and> choices = [(NumericLessThan training_metric 10, Succeed ''Model Error Acceptable'')]
   \<and> fallback =
       Some (Fail ''Model Error Too Low'' None (Some ''RMSE accuracy higher than threshold''))
   \<and> (\<forall>number_at. route number_at choices fallback =
         (if number_at training_metric < 10 then Some (Succeed ''Model Error Acceptable'')
          else Some (Fail ''Model Error Too Low'' None
                 (Some ''RMSE accuracy higher than threshold''))))"
  using create_training_step_Inr [OF assms] by auto

theorem choice_routes_on_threshold_witness:
  "\<exists>training training_step model_step query_step choices fallback.
     create_training_step (PStr ''image'') (PDict [])
       (PDict [(''TrainingUri'', PStr ''train''), (''ValidationUri'', PStr ''val'')])
       (PDict [(''ModelOutputUri'', PStr ''out'')])
       execution_input_schema ''query-fn'' None ''role'' = Inr training
   \<and> training = Chain [training_step, model_step, query_step, Choice ''RMSE < 10'' choices fallback]
   \<and> route (\<lambda>variable. 9.5) choices fallback = Some (Succeed ''Model Error Acceptable'')
   \<and> route (\<lambda>variable. 10) choices fallback =
       Some (Fail ''Model Error Too Low'' None (Some ''RMSE accuracy higher than threshold''))"
proof -
  have "\<exists>training. create_training_step (PStr ''image'') (PDict [])
       (PDict [(''TrainingUri'', PStr ''train''), (''ValidationUri'', PStr ''val'')])
       (PDict [(''ModelOutputUri'', PStr ''out'')])
       execution_input_schema ''query-fn'' None ''role'' = Inr training"
    by (simp add: create_training_step_def and_then_def execution_input_getitem_def
        execution_input_schema_def Let_def)
  then obtain training where built: "create_training_step (PStr ''image'') (PDict [])
       (PDict [(''TrainingUri'', PStr ''train''), (''ValidationUri'', PStr ''val'')])
       (PDict [(''ModelOutputUri'', PStr ''out'')])
       execution_input_schema ''query-fn'' None ''role'' = Inr training"
    by blast
  from choice_routes_on_threshold [OF built]
  obtain training_step model_step query_step choices fallback where
    shape: "training =
       Chain [training_step, model_step, query_step, Choice ''RMSE < 10'' choices fallback]"
    and routes: "\<forall>number_at. route number_at choices fallback =
         (if number_at training_metric < 10 then Some (Succeed ''Model Error Acceptable'')
          else Some (Fail ''Model Error Too Low'' None
                 (Some ''RMSE accuracy higher than threshold'')))"
    by blast
  from routes have
    "route (\<lambda>variable. 9.5) choices fallback = Some (Succeed ''Model Error Acceptable'')"
    "route (\<lambda>variable. 10) choices fallback =
       Some (Fail ''Model Error Too Low'' None (Some ''RMSE accuracy higher than threshold''))"
    by simp_all
  with built shape show ?thesis
    by blast
qed

text \<open>
  C3. On every successful run, main writes exactly four files, all in \<open>output_dir\<close>:
  \<open>workflow-graph.json\<close> with the JSON of the state-machine definition (the graph it
  pushed), \<open>workflow-input.json\<close> with the execution inputs, \<open>deploy-model-dev.json\<close> with
  the dev parameters and \<open>template-model-prd.json\<close> with the prod parameters, in this order.
  It creates \<open>output_dir\<close> before them if and only if that path did not exist, and it creates
  and writes nothing else.
\<close>

theorem main_writes_four_artifacts:
  assumes "main env a w = (Inr u, w')"
  shows "\<exists>image_uri job_id git dv graph params.
      UpdateWorkflow (workflow_pipeline_arn a) graph \<in> set (new_events w w')
    \<and> get_prd_params (model_name a) job_id (deploy_role a) image_uri (kms_key_id a) = Inr params
    \<and> filter is_artifact (new_events w w') =
         (if output_found a w then [] else [MkDir (output_dir a)])
         @ [WriteFile (path_join (output_dir a) ''workflow-graph.json'')
              (definition_to_json env graph),
            WriteFile (path_join (output_dir a) ''workflow-input.json'')
              (json_dumps env (PDict (workflow_inputs a job_id git dv))),
            WriteFile (path_join (output_dir a) ''deploy-model-dev.json'')
              (json_dumps env
                 (get_dev_params (model_name a) job_id (deploy_role a) image_uri (kms_key_id a))),
            WriteFile (path_join (output_dir a) ''template-model-prd.json'')
              (json_dumps env params)]
    \<and> files w' = (files w)(
         path_join (output_dir a) ''workflow-graph.json'' \<mapsto> definition_to_json env graph,
         path_join (output_dir a) ''workflow-input.json'' \<mapsto>
           json_dumps env (PDict (workflow_inputs a job_id git dv)),
         path_join (output_dir a) ''deploy-model-dev.json'' \<mapsto>
           json_dumps env
             (get_dev_params (model_name a) job_id (deploy_role a) image_uri (kms_key_id a)),
         path_join (output_dir a) ''template-model-prd.json'' \<mapsto> json_dumps env params)
    \<and> dirs w' = (if output_found a w then dirs w else insert (output_dir a) (dirs w))
    \<and> distinct [path_join (output_dir a) ''workflow-graph.json'',
         path_join (output_dir a) ''workflow-input.json'',
         path_join (output_dir a) ''deploy-model-dev.json'',
         path_join (output_dir a) ''template-model-prd.json'']"
proof -
  from main_success [OF assms] obtain image_uri job_id git dv graph params where
    params: "get_prd_params (model_name a) job_id (deploy_role a) image_uri (kms_key_id a)
       = Inr params"
    and f: "files w' = (files w)(
         path_join (output_dir a) ''workflow-graph.json'' \<mapsto> definition_to_json env graph,
         path_join (output_dir a) ''workflow-input.json'' \<mapsto>
           json_dumps env (PDict (workflow_inputs a job_id git dv)),
         path_join (output_dir a) ''deploy-model-dev.json'' \<mapsto>
           json_dumps env
             (get_dev_params (model_name a) job_id (deploy_role a) image_uri (kms_key_id a)),
         path_join (output_dir a) ''template-model-prd.json'' \<mapsto> json_dumps env params)"
    and d: "dirs w' = (if output_found a w then dirs w else insert (output_dir a) (dirs w))"
    and ne: "new_events w w' = config_reads a w @
         [AttachWorkflow (workflow_pipeline_arn a),
          UpdateWorkflow (workflow_pipeline_arn a) graph]
         @ (if output_found a w then [] else [MkDir (output_dir a)])
         @ [WriteFile (path_join (output_dir a) ''workflow-graph.json'')
              (definition_to_json env graph),
            WriteFile (path_join (output_dir a) ''workflow-input.json'')
              (json_dumps env (PDict (workflow_inputs a job_id git dv))),
            WriteFile (path_join (output_dir a) ''deploy-model-dev.json'')
              (json_dumps env
                 (get_dev_params (model_name a) job_id (deploy_role a) image_uri (kms_key_id a))),
            WriteFile (path_join (output_dir a) ''template-model-prd.json'')
              (json_dumps env params)]"
    by blast
  show ?thesis
    apply (rule exI [of _ image_uri], rule exI [of _ job_id], rule exI [of _ git],
        rule exI [of _ dv], rule exI [of _ graph], rule exI [of _ params])
    using artifact_paths_distinct [of "output_dir a"]
    apply (simp add: ne params filter_config_reads f d)
    done
qed

theorem main_writes_four_artifacts_witness:
  "\<exists>w' graph.
     main example_env example_args example_world = (Inr (), w')
   \<and> filter is_artifact (new_events example_world w') =
       [MkDir ''out'',
        WriteFile ''out/workflow-graph.json'' (definition_to_json example_env graph),
        WriteFile ''out/workflow-input.json''
          (''ExperimentNameTrialNameGitBranchGitCommitHashDataVersionId''
           @ ''BaselineJobNameBaselineOutputUriTrainingJobName''),
        WriteFile ''out/deploy-model-dev.json'' ''Parameters'',
        WriteFile ''out/template-model-prd.json'' ''Parameters'']
   \<and> dirs w' = {''out'', ''ecr'', ''data''}"
proof -
  obtain w' where run: "main example_env example_args example_world = (Inr (), w')"
    using example_run by blast
  from main_writes_four_artifacts [OF run] obtain image_uri job_id git dv graph params where
    params: "get_prd_params (model_name example_args) job_id (deploy_role example_args)
       image_uri (kms_key_id example_args) = Inr params"
    and arts: "filter is_artifact (new_events example_world w') =
         (if output_found example_args example_world then [] else [MkDir (output_dir example_args)])
         @ [WriteFile (path_join (output_dir example_args) ''workflow-graph.json'')
              (definition_to_json example_env graph),
            WriteFile (path_join (output_dir example_args) ''workflow-input.json'')
              (json_dumps example_env (PDict (workflow_inputs example_args job_id git dv))),
            WriteFile (path_join (output_dir example_args) ''deploy-model-dev.json'')
              (json_dumps example_env
                 (get_dev_params (model_name example_args) job_id (deploy_role example_args)
                    image_uri (kms_key_id example_args))),
            WriteFile (path_join (output_dir example_args) ''template-model-prd.json'')
              (json_dumps example_env params)]"
    and d: "dirs w' = (if output_found example_args example_world then dirs example_world
         else insert (output_dir example_args) (dirs example_world))"
    by blast
  from params have p: "json_dumps example_env params = ''Parameters''"
    by (auto simp: get_prd_params_def get_dev_params_def example_env_def)
  have nf: "\<not> output_found example_args example_world"
    by (simp add: output_found_def example_args_def example_world_def)
  have "filter is_artifact (new_events example_world w') =
       [MkDir ''out'',
        WriteFile ''out/workflow-graph.json'' (definition_to_json example_env graph),
        WriteFile ''out/workflow-input.json''
          (''ExperimentNameTrialNameGitBranchGitCommitHashDataVersionId''
           @ ''BaselineJobNameBaselineOutputUriTrainingJobName''),
        WriteFile ''out/deploy-model-dev.json'' ''Parameters'',
        WriteFile ''out/template-model-prd.json'' ''Parameters'']"
    unfolding arts p using nf
    by (simp add: example_args_def path_join_def workflow_inputs_def get_dev_params_def
        example_env_def)
  moreover have "dirs w' = {''out'', ''ecr'', ''data''}"
    unfolding d using nf by (simp add: example_args_def example_world_def)
  ultimately show ?thesis
    using run by blast
qed

text \<open>
  C4. main pushes the graph it built as a state-machine definition: it attaches to the
  workflow named by \<open>workflow_pipeline_arn\<close> and calls update with that graph, once, and
  only after that does it create the output directory or write a file. In every run the
  events are some reads, then at most the attachment, then at most the update, then
  directory and file events; a successful run has the attachment and the update, with the
  graph the builders returned, which is also the graph written to \<open>workflow-graph.json\<close>.
\<close>

theorem main_pushes_once_before_writing:
  assumes "main env a w = (r, w')"
  shows "\<exists>reads rest.
      new_events w w' = reads @ rest
    \<and> (\<forall>e\<in>set reads. is_read e)
    \<and> (rest = []
        \<or> rest = [AttachWorkflow (workflow_pipeline_arn a)]
        \<or> (\<exists>graph arts.
              rest = AttachWorkflow (workflow_pipeline_arn a)
                   # UpdateWorkflow (workflow_pipeline_arn a) graph # arts
            \<and> (\<forall>e\<in>set arts. is_artifact e)))
    \<and> ((\<exists>u. r = Inr u) \<longrightarrow>
          (\<exists>graph arts baseline training.
              rest = AttachWorkflow (workflow_pipeline_arn a)
                   # UpdateWorkflow (workflow_pipeline_arn a) graph # arts
            \<and> (\<forall>e\<in>set arts. is_artifact e)
            \<and> WriteFile (path_join (output_dir a) ''workflow-graph.json'')
                 (definition_to_json env graph) \<in> set arts
            \<and> graph = create_graph (create_experiment_step (create_experiment_function_name a))
                 baseline training))"
proof (cases r)
  case (Inl e)
  from main_events [OF assms] show ?thesis
  proof
    assume "(\<exists>e. r = Inl e) \<and> files w' = files w \<and> dirs w' = dirs w
          \<and> (\<forall>e\<in>set (new_events w w'). is_read e)"
    then have "new_events w w' = new_events w w' @ []" "\<forall>e\<in>set (new_events w w'). is_read e"
      by simp_all
    with Inl show ?thesis by blast
  next
    assume "\<exists>image_uri job_id git dv graph w1 es.
            prepare env a w = (Inr (image_uri, job_id, git, dv, graph), w1)
          \<and> publish env a (image_uri, job_id, git, dv, graph) w1 = (r, w')
          \<and> new_events w w' = config_reads a w @ AttachWorkflow (workflow_pipeline_arn a) # es
          \<and> (es = [] \<and> (\<exists>e. r = Inl e) \<and> files w' = files w \<and> dirs w' = dirs w
              \<or> (\<exists>arts. es = UpdateWorkflow (workflow_pipeline_arn a) graph # arts
                    \<and> (\<forall>e\<in>set arts. is_artifact e)
                    \<and> (update_error env (workflow_pipeline_arn a) graph \<noteq> None \<longrightarrow>
                         arts = [] \<and> (\<exists>e. r = Inl e) \<and> files w' = files w
                         \<and> dirs w' = dirs w)))"
    then obtain graph es where
      ne: "new_events w w' = config_reads a w @ AttachWorkflow (workflow_pipeline_arn a) # es"
      and es: "es = [] \<or> (\<exists>arts. es = UpdateWorkflow (workflow_pipeline_arn a) graph # arts
                    \<and> (\<forall>e\<in>set arts. is_artifact e))"
      by blast
    have reads: "\<forall>e\<in>set (config_reads a w). is_read e"
      using config_reads_is_read by blast
    from es have shape: "AttachWorkflow (workflow_pipeline_arn a) # es = []
        \<or> AttachWorkflow (workflow_pipeline_arn a) # es = [AttachWorkflow (workflow_pipeline_arn a)]
        \<or> (\<exists>graph arts.
              AttachWorkflow (workflow_pipeline_arn a) # es
                = AttachWorkflow (workflow_pipeline_arn a)
                   # UpdateWorkflow (workflow_pipeline_arn a) graph # arts
            \<and> (\<forall>e\<in>set arts. is_artifact e))"
      by auto
    show ?thesis
      apply (rule exI [of _ "config_reads a w"])
      apply (rule exI [of _ "AttachWorkflow (workflow_pipeline_arn a) # es"])
      using ne reads Inl shape by simp
  qed
next
  case (Inr u)
  from main_success_arts [OF assms [unfolded Inr]] obtain image_uri job_id git dv graph w1 arts
    where prep: "prepare env a w = (Inr (image_uri, job_id, git, dv, graph), w1)"
    and ne: "new_events w w' = config_reads a w @ AttachWorkflow (workflow_pipeline_arn a)
         # UpdateWorkflow (workflow_pipeline_arn a) graph # arts"
    and arts: "\<forall>e\<in>set arts. is_artifact e"
    and wf: "WriteFile (path_join (output_dir a) ''workflow-graph.json'')
      (definition_to_json env graph) \<in> set arts"
    by blast
  from prepare_Inr [OF prep] obtain baseline training where
    g: "graph = create_graph (create_experiment_step (create_experiment_function_name a))
          baseline training"
    by blast
  have reads: "\<forall>e\<in>set (config_reads a w). is_read e"
    using config_reads_is_read by blast
  show ?thesis
    apply (rule exI [of _ "config_reads a w"])
    apply (rule exI [of _ "AttachWorkflow (workflow_pipeline_arn a)
          # UpdateWorkflow (workflow_pipeline_arn a) graph # arts"])
    using ne reads arts wf g by auto
qed

theorem main_pushes_once_before_writing_witness:
  "\<exists>w' reads graph arts.
     main example_env example_args example_world = (Inr (), w')
   \<and> new_events example_world w' =
       reads @ AttachWorkflow ''arn:wf'' # UpdateWorkflow ''arn:wf'' graph # arts
   \<and> list_all is_read reads \<and> list_all is_artifact arts
   \<and> WriteFile ''out/workflow-graph.json'' (definition_to_json example_env graph) \<in> set arts"
proof -
  obtain w' where run: "main example_env example_args example_world = (Inr (), w')"
    using example_run by blast
  from main_pushes_once_before_writing [OF run] obtain reads rest graph arts where
    "new_events example_world w' = reads @ rest"
    "\<forall>e\<in>set reads. is_read e"
    "rest = AttachWorkflow (workflow_pipeline_arn example_args)
          # UpdateWorkflow (workflow_pipeline_arn example_args) graph # arts"
    "\<forall>e\<in>set arts. is_artifact e"
    "WriteFile (path_join (output_dir example_args) ''workflow-graph.json'')
       (definition_to_json example_env graph) \<in> set arts"
    by blast
  then have "new_events example_world w' =
       reads @ AttachWorkflow ''arn:wf'' # UpdateWorkflow ''arn:wf'' graph # arts"
    "list_all is_read reads" "list_all is_artifact arts"
    "WriteFile ''out/workflow-graph.json'' (definition_to_json example_env graph) \<in> set arts"
    by (simp_all add: example_args_def path_join_def list_all_iff)
  with run show ?thesis
    by blast
qed

text \<open>
  C8. For every model name, job id, role, image URI and KMS key id, the Parameters
  dictionary of \<open>get_prd_params\<close> holds every key of the Parameters dictionary of
  \<open>get_dev_params\<close> with the same value, except VariantName, which is \<open>prd-<model_name>\<close>
  where the dev dictionary has \<open>dev-<model_name>\<close>; and it holds exactly two more keys,
  ScheduleMetricName with value \<open>feature_baseline_drift_total_amount\<close> and
  ScheduleMetricThreshold with the string \<open>0.20\<close>.
\<close>

theorem get_prd_params_extends_dev:
  "\<exists>dev prd.
     get_dev_params nm jid rl img kid = PDict [(''Parameters'', PDict dev)]
   \<and> get_prd_params nm jid rl img kid = Inr (PDict [(''Parameters'', PDict prd)])
   \<and> (\<forall>k v. map_of dev k = Some v \<and> k \<noteq> ''VariantName'' \<longrightarrow> map_of prd k = Some v)
   \<and> map_of dev ''VariantName'' = Some (PStr (''dev-'' @ nm))
   \<and> map_of prd ''VariantName'' = Some (PStr (''prd-'' @ nm))
   \<and> map_of prd ''ScheduleMetricName'' = Some (PStr ''feature_baseline_drift_total_amount'')
   \<and> map_of prd ''ScheduleMetricThreshold'' = Some (PStr ''0.20'')
   \<and> map_of dev ''ScheduleMetricName'' = None
   \<and> map_of dev ''ScheduleMetricThreshold'' = None
   \<and> set (map fst prd) = set (map fst dev) \<union> {''ScheduleMetricName'', ''ScheduleMetricThreshold''}
   \<and> distinct (map fst dev) \<and> distinct (map fst prd)
   \<and> length prd = length dev + 2"
  by (simp add: get_dev_params_def get_prd_params_def dict_update_all_def) auto

theorem get_prd_params_extends_dev_witness:
  "\<exists>dev prd.
     get_dev_params ''m'' ''j1'' ''r'' (PStr ''img'') ''k'' = PDict [(''Parameters'', PDict dev)]
   \<and> get_prd_params ''m'' ''j1'' ''r'' (PStr ''img'') ''k'' = Inr (PDict [(''Parameters'', PDict prd)])
   \<and> map_of dev ''TrainJobId'' = Some (PStr ''j1'')
   \<and> map_of prd ''TrainJobId'' = Some (PStr ''j1'')
   \<and> map_of prd ''VariantName'' = Some (PStr ''prd-m'')"
proof -
  from get_prd_params_extends_dev [of "''m''" "''j1''" "''r''" "PStr ''img''" "''k''"]
  obtain dev prd where
    d: "get_dev_params ''m'' ''j1'' ''r'' (PStr ''img'') ''k'' = PDict [(''Parameters'', PDict dev)]"
    and p: "get_prd_params ''m'' ''j1'' ''r'' (PStr ''img'') ''k'' = Inr (PDict [(''Parameters'', PDict prd)])"
    and keep: "\<forall>k v. map_of dev k = Some v \<and> k \<noteq> ''VariantName'' \<longrightarrow> map_of prd k = Some v"
    and vn: "map_of prd ''VariantName'' = Some (PStr (''prd-'' @ ''m''))"
    by blast
  from d have j: "map_of dev ''TrainJobId'' = Some (PStr ''j1'')"
    by (auto simp: get_dev_params_def)
  with keep have "map_of prd ''TrainJobId'' = Some (PStr ''j1'')"
    by simp
  with d p j vn show ?thesis by auto
qed

text \<open>
  C9. In the \<open>workflow-input.json\<close> written by a successful run, TrialName,
  BaselineJobName and TrainingJobName are the same string \<open>mlops-<model_name>-<job_id>\<close>,
  ExperimentName is \<open>mlops-<model_name>\<close> and BaselineOutputUri is
  \<open>s3://<sagemaker_bucket>/<model_name>/monitoring/baseline/mlops-<model_name>-pbl-<job_id>\<close>,
  where \<open>job_id\<close> is the JobId of \<open>get_pipeline_revision\<close>, the pipeline execution id of
  the first stage.
\<close>

theorem workflow_input_names:
  assumes "main env a w = (Inr u, w')"
  shows "\<exists>job_id revision stage stages inputs.
      get_pipeline_revision env (pipeline_name a) = Inr revision
    \<and> map_of revision ''JobId'' = Some job_id
    \<and> get_pipeline_state env (pipeline_name a) = Inr (stage # stages)
    \<and> latestExecution stage = Some job_id
    \<and> files w' (path_join (output_dir a) ''workflow-input.json'')
         = Some (json_dumps env (PDict inputs))
    \<and> WriteFile (path_join (output_dir a) ''workflow-input.json'')
         (json_dumps env (PDict inputs)) \<in> set (new_events w w')
    \<and> map_of inputs ''TrialName'' = Some (PStr (''mlops-'' @ model_name a @ ''-'' @ job_id))
    \<and> map_of inputs ''BaselineJobName'' = Some (PStr (''mlops-'' @ model_name a @ ''-'' @ job_id))
    \<and> map_of inputs ''TrainingJobName'' = Some (PStr (''mlops-'' @ model_name a @ ''-'' @ job_id))
    \<and> map_of inputs ''ExperimentName'' = Some (PStr (''mlops-'' @ model_name a))
    \<and> map_of inputs ''BaselineOutputUri'' =
         Some (PStr (''s3://'' @ sagemaker_bucket a @ ''/'' @ model_name a
                @ ''/monitoring/baseline/mlops-'' @ model_name a @ ''-pbl-'' @ job_id))"
proof -
  from main_success [OF assms] obtain image_uri job_id git dv graph w1 params where
    prep: "prepare env a w = (Inr (image_uri, job_id, git, dv, graph), w1)"
    and f: "files w' = (files w)(
         path_join (output_dir a) ''workflow-graph.json'' \<mapsto> definition_to_json env graph,
         path_join (output_dir a) ''workflow-input.json'' \<mapsto>
           json_dumps env (PDict (workflow_inputs a job_id git dv)),
         path_join (output_dir a) ''deploy-model-dev.json'' \<mapsto>
           json_dumps env
             (get_dev_params (model_name a) job_id (deploy_role a) image_uri (kms_key_id a)),
         path_join (output_dir a) ''template-model-prd.json'' \<mapsto> json_dumps env params)"
    and ne: "new_events w w' = config_reads a w @
         [AttachWorkflow (workflow_pipeline_arn a),
          UpdateWorkflow (workflow_pipeline_arn a) graph]
         @ (if output_found a w then [] else [MkDir (output_dir a)])
         @ [WriteFile (path_join (output_dir a) ''workflow-graph.json'')
              (definition_to_json env graph),
            WriteFile (path_join (output_dir a) ''workflow-input.json'')
              (json_dumps env (PDict (workflow_inputs a job_id git dv))),
            WriteFile (path_join (output_dir a) ''deploy-model-dev.json'')
              (json_dumps env
                 (get_dev_params (model_name a) job_id (deploy_role a) image_uri (kms_key_id a))),
            WriteFile (path_join (output_dir a) ''template-model-prd.json'')
              (json_dumps env params)]"
    by blast
  from prepare_Inr [OF prep] obtain revision where
    rev: "get_pipeline_revision env (pipeline_name a) = Inr revision"
    and job: "revision_getitem revision ''JobId'' = Inr job_id"
    by blast
  from job have mj: "map_of revision ''JobId'' = Some job_id"
    by (rule revision_getitem_Inr)
  from get_pipeline_revision_Inr [OF rev] mj obtain stage stages where
    st: "get_pipeline_state env (pipeline_name a) = Inr (stage # stages)"
    and le: "latestExecution stage = Some job_id"
    by auto
  have written: "files w' (path_join (output_dir a) ''workflow-input.json'')
         = Some (json_dumps env (PDict (workflow_inputs a job_id git dv)))"
    using artifact_paths_distinct [of "output_dir a"] by (simp add: f)
  have ev: "WriteFile (path_join (output_dir a) ''workflow-input.json'')
         (json_dumps env (PDict (workflow_inputs a job_id git dv))) \<in> set (new_events w w')"
    by (simp add: ne)
  show ?thesis
    apply (rule exI [of _ job_id], rule exI [of _ revision], rule exI [of _ stage],
        rule exI [of _ stages], rule exI [of _ "workflow_inputs a job_id git dv"])
    using rev mj st le written ev by (simp add: workflow_inputs_def)
qed

theorem workflow_input_names_witness:
  "\<exists>w' inputs.
     main example_env example_args example_world = (Inr (), w')
   \<and> files w' ''out/workflow-input.json'' = Some (json_dumps example_env (PDict inputs))
   \<and> map_of inputs ''TrialName'' = Some (PStr ''mlops-nyctaxi-exec-1'')
   \<and> map_of inputs ''BaselineJobName'' = Some (PStr ''mlops-nyctaxi-exec-1'')
   \<and> map_of inputs ''TrainingJobName'' = Some (PStr ''mlops-nyctaxi-exec-1'')
   \<and> map_of inputs ''ExperimentName'' = Some (PStr ''mlops-nyctaxi'')
   \<and> map_of inputs ''BaselineOutputUri'' =
       Some (PStr ''s3://bucket/nyctaxi/monitoring/baseline/mlops-nyctaxi-pbl-exec-1'')"
proof -
  obtain w' where run: "main example_env example_args example_world = (Inr (), w')"
    using example_run by blast
  from workflow_input_names [OF run] obtain job_id stage stages inputs where
    st: "get_pipeline_state example_env (pipeline_name example_args) = Inr (stage # stages)"
    and le: "latestExecution stage = Some job_id"
    and written: "files w' (path_join (output_dir example_args) ''workflow-input.json'')
         = Some (json_dumps example_env (PDict inputs))"
    and names:
      "map_of inputs ''TrialName''
         = Some (PStr (''mlops-'' @ model_name example_args @ ''-'' @ job_id))"
      "map_of inputs ''BaselineJobName''
         = Some (PStr (''mlops-'' @ model_name example_args @ ''-'' @ job_id))"
      "map_of inputs ''TrainingJobName''
         = Some (PStr (''mlops-'' @ model_name example_args @ ''-'' @ job_id))"
      "map_of inputs ''ExperimentName'' = Some (PStr (''mlops-'' @ model_name example_args))"
      "map_of inputs ''BaselineOutputUri'' =
         Some (PStr (''s3://'' @ sagemaker_bucket example_args @ ''/'' @ model_name example_args
                @ ''/monitoring/baseline/mlops-'' @ model_name example_args
                @ ''-pbl-'' @ job_id))"
    by blast
  from st le have job: "job_id = ''exec-1''"
    by (auto simp: example_env_def)
  from written names run show ?thesis
    unfolding job by (simp add: example_args_def path_join_def) blast
qed

text \<open>
  C10. If an early phase of main fails, main raises before it creates the output directory
  or writes a file: when \<open>inputData.json\<close> is missing, when it lacks TrainingUri,
  ValidationUri or BaselineUri, when the first pipeline stage has no action named GitSource
  or none named DataSource, or when the update call that main made was refused, the run ends
  in an error, the files and directories are what they were, and the run made no directory
  and wrote no file.
\<close>

theorem early_failure_leaves_output_untouched:
  assumes run: "main env a w = (r, w')"
    and bad: "files w (input_path a) = None
      \<or> (\<exists>text input_data key. files w (input_path a) = Some text
            \<and> json_loads env text = Inr input_data
            \<and> key \<in> {''TrainingUri'', ''ValidationUri'', ''BaselineUri''}
            \<and> (\<exists>e. getitem input_data key = Inl e))
      \<or> (\<exists>stage stages. get_pipeline_state env (pipeline_name a) = Inr (stage # stages)
            \<and> (''GitSource'' \<notin> actionName ` set (actionStates stage)
                \<or> ''DataSource'' \<notin> actionName ` set (actionStates stage)))
      \<or> (\<exists>graph. UpdateWorkflow (workflow_pipeline_arn a) graph \<in> set (new_events w w')
            \<and> update_error env (workflow_pipeline_arn a) graph \<noteq> None)"
  shows "(\<exists>e. r = Inl e) \<and> files w' = files w \<and> dirs w' = dirs w
    \<and> (\<forall>ev\<in>set (new_events w w'). \<not> is_artifact ev)"
proof (cases "(\<exists>e. r = Inl e) \<and> files w' = files w \<and> dirs w' = dirs w
          \<and> (\<forall>e\<in>set (new_events w w'). is_read e)")
  case True
  then show ?thesis
    using is_read_not_artifact by blast
next
  case False
  with main_events [OF run] obtain image_uri job_id git dv graph w1 es where
    prep: "prepare env a w = (Inr (image_uri, job_id, git, dv, graph), w1)"
    and ne: "new_events w w' = config_reads a w @ AttachWorkflow (workflow_pipeline_arn a) # es"
    and es: "es = [] \<and> (\<exists>e. r = Inl e) \<and> files w' = files w \<and> dirs w' = dirs w
              \<or> (\<exists>arts. es = UpdateWorkflow (workflow_pipeline_arn a) graph # arts
                    \<and> (\<forall>e\<in>set arts. is_artifact e)
                    \<and> (update_error env (workflow_pipeline_arn a) graph \<noteq> None \<longrightarrow>
                         arts = [] \<and> (\<exists>e. r = Inl e) \<and> files w' = files w
                         \<and> dirs w' = dirs w))"
    by blast
  from prepare_Inr [OF prep] obtain input_text input_data revision where
    inp: "files w (input_path a) = Some input_text"
    and loaded: "json_loads env input_text = Inr input_data"
    and k1: "\<exists>v. getitem input_data ''TrainingUri'' = Inr v"
    and k2: "\<exists>v. getitem input_data ''ValidationUri'' = Inr v"
    and k3: "\<exists>v. getitem input_data ''BaselineUri'' = Inr v"
    and rev: "get_pipeline_revision env (pipeline_name a) = Inr revision"
    and git: "revision_getitem revision ''GitSource'' = Inr git"
    and dv: "revision_getitem revision ''DataSource'' = Inr dv"
    by blast
  from get_pipeline_revision_Inr [OF rev] obtain stage stages where
    st: "get_pipeline_state env (pipeline_name a) = Inr (stage # stages)"
    and keys: "\<forall>k v. k \<noteq> ''JobId'' \<longrightarrow> map_of revision k = Some v \<longrightarrow>
          k \<in> actionName ` set (actionStates stage)"
    by blast
  have g: "''GitSource'' \<in> actionName ` set (actionStates stage)"
    by (rule keys [rule_format, OF _ revision_getitem_Inr [OF git]]) simp
  have d: "''DataSource'' \<in> actionName ` set (actionStates stage)"
    by (rule keys [rule_format, OF _ revision_getitem_Inr [OF dv]]) simp
  have no1: "files w (input_path a) \<noteq> None"
    by (simp add: inp)
  have no2: "\<not> (\<exists>text input_data key. files w (input_path a) = Some text
            \<and> json_loads env text = Inr input_data
            \<and> key \<in> {''TrainingUri'', ''ValidationUri'', ''BaselineUri''}
            \<and> (\<exists>e. getitem input_data key = Inl e))"
  proof
    assume "\<exists>text input_data key. files w (input_path a) = Some text
            \<and> json_loads env text = Inr input_data
            \<and> key \<in> {''TrainingUri'', ''ValidationUri'', ''BaselineUri''}
            \<and> (\<exists>e. getitem input_data key = Inl e)"
    then obtain content data name e where
      t: "files w (input_path a) = Some content" "json_loads env content = Inr data"
      and which: "name = ''TrainingUri'' \<or> name = ''ValidationUri'' \<or> name = ''BaselineUri''"
      and e: "getitem data name = Inl e"
      by blast
    from t inp loaded have "data = input_data" by simp
    with which e k1 k2 k3 show False by auto
  qed
  have no3: "\<not> (\<exists>stage stages. get_pipeline_state env (pipeline_name a) = Inr (stage # stages)
            \<and> (''GitSource'' \<notin> actionName ` set (actionStates stage)
                \<or> ''DataSource'' \<notin> actionName ` set (actionStates stage)))"
    using st g d by simp
  from bad no1 no2 no3 obtain pushed where
    ev: "UpdateWorkflow (workflow_pipeline_arn a) pushed \<in> set (new_events w w')"
    and refused: "update_error env (workflow_pipeline_arn a) pushed \<noteq> None"
    by blast
  from run ev obtain image_uri' job_id' git' dv' w1' where
    "prepare env a w = (Inr (image_uri', job_id', git', dv', pushed), w1')"
    by (rule main_pushed_graph)
  with prep have "pushed = graph"
    by simp
  with refused have upd: "update_error env (workflow_pipeline_arn a) graph \<noteq> None"
    by simp
  with es have fin: "(\<exists>e. r = Inl e) \<and> files w' = files w \<and> dirs w' = dirs w"
    and shape: "es = [] \<or> es = [UpdateWorkflow (workflow_pipeline_arn a) graph]"
    by auto
  have "\<forall>ev\<in>set (config_reads a w). \<not> is_artifact ev"
    using config_reads_is_read is_read_not_artifact by blast
  with shape have "\<forall>ev\<in>set (new_events w w'). \<not> is_artifact ev"
    unfolding ne by auto
  with fin show ?thesis by blast
qed

theorem early_failure_leaves_output_untouched_witness:
  "(\<exists>e w'. main example_env example_args example_world_no_input = (Inl e, w')
      \<and> files w' = files example_world_no_input \<and> dirs w' = dirs example_world_no_input
      \<and> filter is_artifact (new_events example_world_no_input w') = [])
 \<and> (\<exists>e w' graph. main example_env_update_denied example_args example_world = (Inl e, w')
      \<and> UpdateWorkflow ''arn:wf'' graph \<in> set (new_events example_world w')
      \<and> update_error example_env_update_denied ''arn:wf'' graph \<noteq> None
      \<and> files w' = files example_world \<and> dirs w' = dirs example_world
      \<and> filter is_artifact (new_events example_world w') = [])"
proof (rule conjI)
  obtain r1 w1 where run1: "main example_env example_args example_world_no_input = (r1, w1)"
    by (cases "main example_env example_args example_world_no_input")
  have "files example_world_no_input (input_path example_args) = None"
    by (simp add: example_world_no_input_def example_world_def input_path_def example_args_def
        path_join_def)
  with early_failure_leaves_output_untouched [OF run1] have
    "(\<exists>e. r1 = Inl e) \<and> files w1 = files example_world_no_input
      \<and> dirs w1 = dirs example_world_no_input
      \<and> (\<forall>ev\<in>set (new_events example_world_no_input w1). \<not> is_artifact ev)"
    by blast
  with run1 show "\<exists>e w'. main example_env example_args example_world_no_input = (Inl e, w')
      \<and> files w' = files example_world_no_input \<and> dirs w' = dirs example_world_no_input
      \<and> filter is_artifact (new_events example_world_no_input w') = []"
    by (auto simp: filter_empty_conv)
next
  obtain x w1 where "prepare example_env_update_denied example_args example_world = (Inr x, w1)"
    using example_prepare_update_denied by blast
  then obtain image_uri job_id git dv graph where
    prep: "prepare example_env_update_denied example_args example_world
       = (Inr (image_uri, job_id, git, dv, graph), w1)"
    by (cases x) auto
  from prepare_Inr [OF prep] obtain baseline training where
    "graph = create_graph (create_experiment_step (create_experiment_function_name example_args))
       baseline training"
    by blast
  then have denied: "update_error example_env_update_denied (workflow_pipeline_arn example_args)
      graph = Some (ClientError ''AccessDenied'')"
    by (simp add: create_graph_def example_env_update_denied_def)
  have att: "attach_error example_env_update_denied (workflow_pipeline_arn example_args) = None"
    by (simp add: example_env_update_denied_def example_env_def)
  from main_update_refused [OF prep att denied] obtain w' where
    run: "main example_env_update_denied example_args example_world
       = (Inl (ClientError ''AccessDenied''), w')"
    and ne: "new_events example_world w' = config_reads example_args example_world
          @ [AttachWorkflow (workflow_pipeline_arn example_args),
             UpdateWorkflow (workflow_pipeline_arn example_args) graph]"
    by blast
  have ev: "UpdateWorkflow (workflow_pipeline_arn example_args) graph
      \<in> set (new_events example_world w')"
    by (simp add: ne)
  have refused: "update_error example_env_update_denied (workflow_pipeline_arn example_args) graph
      \<noteq> None"
    by (simp add: denied)
  from ev refused have "\<exists>graph. UpdateWorkflow (workflow_pipeline_arn example_args) graph
        \<in> set (new_events example_world w')
      \<and> update_error example_env_update_denied (workflow_pipeline_arn example_args) graph \<noteq> None"
    by blast
  with early_failure_leaves_output_untouched [OF run] have
    "files w' = files example_world \<and> dirs w' = dirs example_world
      \<and> (\<forall>ev\<in>set (new_events example_world w'). \<not> is_artifact ev)"
    by blast
  then have "files w' = files example_world" "dirs w' = dirs example_world"
    "filter is_artifact (new_events example_world w') = []"
    by (auto simp: filter_empty_conv)
  moreover have arn: "workflow_pipeline_arn example_args = ''arn:wf''"
    by (simp add: example_args_def)
  ultimately show "\<exists>e w' graph.
        main example_env_update_denied example_args example_world = (Inl e, w')
      \<and> UpdateWorkflow ''arn:wf'' graph \<in> set (new_events example_world w')
      \<and> update_error example_env_update_denied ''arn:wf'' graph \<noteq> None
      \<and> files w' = files example_world \<and> dirs w' = dirs example_world
      \<and> filter is_artifact (new_events example_world w') = []"
    using run ev refused unfolding arn by blast
qed

text \<open>
  C5. How main reads its configuration files. \<open>inputData.json\<close> in \<open>data_dir\<close> is
  read in every run, unless main had already raised while it chose the image or the file is
  not there; a run succeeds only if the file holds TrainingUri, ValidationUri and
  BaselineUri. A successful run reads \<open>hyperparameters.json\<close> in \<open>data_dir\<close> exactly
  when that path exists, and passes no hyperparameters of its own otherwise (the estimator
  gets the defaults). It reads \<open>imageDetail.json\<close> in \<open>ecr_dir\<close> exactly when
  \<open>ecr_dir\<close> is given and not empty, and then the ImageURI field is the image of the
  estimator; otherwise the image is what \<open>retrieve\<close> returns for the region, framework
  xgboost, version latest. These are all the files it reads, in this order: image detail,
  input data, hyperparameters.
\<close>

theorem main_reads_configuration:
  assumes "main env a w = (r, w')"
  shows "(OpenRead (input_path a) \<in> set (new_events w w')
       \<or> (\<exists>e. r = Inl e
              \<and> (load_image env a w = (Inl e, w') \<or> files w (input_path a) = None)))
    \<and> ((\<exists>u. r = Inr u) \<longrightarrow>
        filter is_read (new_events w w') =
            (if ecr_given a then [OpenRead (image_path a)] else [])
            @ [OpenRead (input_path a)]
            @ (if hyper_found a w then [OpenRead (hyper_path a)] else [])
        \<and> (\<exists>content input_data.
              files w (input_path a) = Some content \<and> json_loads env content = Inr input_data
            \<and> (\<exists>v. getitem input_data ''TrainingUri'' = Inr v)
            \<and> (\<exists>v. getitem input_data ''ValidationUri'' = Inr v)
            \<and> (\<exists>v. getitem input_data ''BaselineUri'' = Inr v))
        \<and> (\<exists>graph experiment baseline estimator data job_name config tags result_path catches rest
              jobs_catches hyperparameters.
              UpdateWorkflow (workflow_pipeline_arn a) graph \<in> set (new_events w w')
            \<and> graph = Chain [experiment,
                Parallel ''SageMaker Jobs'' [baseline,
                  Chain (TrainingStep ''Training Job'' estimator data job_name config tags
                           result_path catches # rest)]
                  jobs_catches]
            \<and> (ecr_given a \<longrightarrow>
                  (\<exists>content detail. files w (image_path a) = Some content
                     \<and> json_loads env content = Inr detail
                     \<and> getitem detail ''ImageURI'' = Inr (est_image_uri estimator)))
            \<and> (\<not> ecr_given a \<longrightarrow>
                  (\<exists>uri. retrieve env (region_name env) ''xgboost'' ''latest'' = Inr uri
                     \<and> est_image_uri estimator = PStr uri))
            \<and> merge_hyperparameters hyperparameters = Inr (est_hyperparameters estimator)
            \<and> (hyper_found a w \<longrightarrow>
                  (\<exists>content loaded. files w (hyper_path a) = Some content
                     \<and> json_loads env content = Inr loaded
                     \<and> str_values (py_str env) loaded = Inr hyperparameters))
            \<and> (\<not> hyper_found a w \<longrightarrow>
                  hyperparameters = PDict [] \<and> est_hyperparameters estimator = hp)))"
proof (rule conjI)
  show "OpenRead (input_path a) \<in> set (new_events w w')
       \<or> (\<exists>e. r = Inl e
              \<and> (load_image env a w = (Inl e, w') \<or> files w (input_path a) = None))"
    using assms by (rule main_input_read)
next
  show "(\<exists>u. r = Inr u) \<longrightarrow>
        filter is_read (new_events w w') =
            (if ecr_given a then [OpenRead (image_path a)] else [])
            @ [OpenRead (input_path a)]
            @ (if hyper_found a w then [OpenRead (hyper_path a)] else [])
        \<and> (\<exists>content input_data.
              files w (input_path a) = Some content \<and> json_loads env content = Inr input_data
            \<and> (\<exists>v. getitem input_data ''TrainingUri'' = Inr v)
            \<and> (\<exists>v. getitem input_data ''ValidationUri'' = Inr v)
            \<and> (\<exists>v. getitem input_data ''BaselineUri'' = Inr v))
        \<and> (\<exists>graph experiment baseline estimator data job_name config tags result_path catches rest
              jobs_catches hyperparameters.
              UpdateWorkflow (workflow_pipeline_arn a) graph \<in> set (new_events w w')
            \<and> graph = Chain [experiment,
                Parallel ''SageMaker Jobs'' [baseline,
                  Chain (TrainingStep ''Training Job'' estimator data job_name config tags
                           result_path catches # rest)]
                  jobs_catches]
            \<and> (ecr_given a \<longrightarrow>
                  (\<exists>content detail. files w (image_path a) = Some content
                     \<and> json_loads env content = Inr detail
                     \<and> getitem detail ''ImageURI'' = Inr (est_image_uri estimator)))
            \<and> (\<not> ecr_given a \<longrightarrow>
                  (\<exists>uri. retrieve env (region_name env) ''xgboost'' ''latest'' = Inr uri
                     \<and> est_image_uri estimator = PStr uri))
            \<and> merge_hyperparameters hyperparameters = Inr (est_hyperparameters estimator)
            \<and> (hyper_found a w \<longrightarrow>
                  (\<exists>content loaded. files w (hyper_path a) = Some content
                     \<and> json_loads env content = Inr loaded
                     \<and> str_values (py_str env) loaded = Inr hyperparameters))
            \<and> (\<not> hyper_found a w \<longrightarrow>
                  hyperparameters = PDict [] \<and> est_hyperparameters estimator = hp))"
  proof (rule impI)
    assume "\<exists>u. r = Inr u"
    then obtain u where "r = Inr u" ..
    with assms have "main env a w = (Inr u, w')" by simp
    then show "filter is_read (new_events w w') =
        (if ecr_given a then [OpenRead (image_path a)] else [])
        @ [OpenRead (input_path a)]
        @ (if hyper_found a w then [OpenRead (hyper_path a)] else [])
    \<and> (\<exists>content input_data.
          files w (input_path a) = Some content \<and> json_loads env content = Inr input_data
        \<and> (\<exists>v. getitem input_data ''TrainingUri'' = Inr v)
        \<and> (\<exists>v. getitem input_data ''ValidationUri'' = Inr v)
        \<and> (\<exists>v. getitem input_data ''BaselineUri'' = Inr v))
    \<and> (\<exists>graph experiment baseline estimator data job_name config tags result_path catches rest
          jobs_catches hyperparameters.
          UpdateWorkflow (workflow_pipeline_arn a) graph \<in> set (new_events w w')
        \<and> graph = Chain [experiment,
            Parallel ''SageMaker Jobs'' [baseline,
              Chain (TrainingStep ''Training Job'' estimator data job_name config tags
                       result_path catches # rest)]
              jobs_catches]
        \<and> (ecr_given a \<longrightarrow>
              (\<exists>content detail. files w (image_path a) = Some content
                 \<and> json_loads env content = Inr detail
                 \<and> getitem detail ''ImageURI'' = Inr (est_image_uri estimator)))
        \<and> (\<not> ecr_given a \<longrightarrow>
              (\<exists>uri. retrieve env (region_name env) ''xgboost'' ''latest'' = Inr uri
                 \<and> est_image_uri estimator = PStr uri))
        \<and> merge_hyperparameters hyperparameters = Inr (est_hyperparameters estimator)
        \<and> (hyper_found a w \<longrightarrow>
              (\<exists>content loaded. files w (hyper_path a) = Some content
                 \<and> json_loads env content = Inr loaded
                 \<and> str_values (py_str env) loaded = Inr hyperparameters))
        \<and> (\<not> hyper_found a w \<longrightarrow>
              hyperparameters = PDict [] \<and> est_hyperparameters estimator = hp))"
      by (rule success_reads)
  qed
qed

theorem main_reads_configuration_witness:
  "(\<exists>w' graph first_step baseline estimator data job_name config tags result_path catches rest
      jobs_catches.
      main example_env example_args example_world = (Inr (), w')
    \<and> filter is_read (new_events example_world w') =
        [OpenRead ''ecr/imageDetail.json'', OpenRead ''data/inputData.json'',
         OpenRead ''data/hyperparameters.json'']
    \<and> UpdateWorkflow ''arn:wf'' graph \<in> set (new_events example_world w')
    \<and> graph = Chain [first_step,
          Parallel ''SageMaker Jobs'' [baseline,
            Chain (TrainingStep ''Training Job'' estimator data job_name config tags
                     result_path catches # rest)]
            jobs_catches]
    \<and> est_image_uri estimator = PStr ''repo/image:1'')
 \<and> (\<exists>w' graph first_step baseline estimator data job_name config tags result_path catches rest
      jobs_catches.
      main example_env example_args_managed example_world_plain = (Inr (), w')
    \<and> filter is_read (new_events example_world_plain w') = [OpenRead ''data/inputData.json'']
    \<and> UpdateWorkflow ''arn:wf'' graph \<in> set (new_events example_world_plain w')
    \<and> graph = Chain [first_step,
          Parallel ''SageMaker Jobs'' [baseline,
            Chain (TrainingStep ''Training Job'' estimator data job_name config tags
                     result_path catches # rest)]
            jobs_catches]
    \<and> est_image_uri estimator = PStr ''xgboost.eu-west-1''
    \<and> est_hyperparameters estimator = hp)"
proof (rule conjI)
  obtain w' where run: "main example_env example_args example_world = (Inr (), w')"
    using example_run by blast
  have ok: "\<exists>u. (Inr () :: error + unit) = Inr u"
    by simp
  have given: "ecr_given example_args"
    by (simp add: ecr_given_def example_args_def)
  have found: "hyper_found example_args example_world"
    by (simp add: hyper_found_def hyper_path_def example_args_def example_world_def path_join_def)
  from main_reads_configuration [OF run, THEN conjunct2, THEN mp, OF ok] given found
  obtain graph first_step baseline estimator data job_name config tags result_path catches rest
      jobs_catches content detail where
    reads: "filter is_read (new_events example_world w') =
        [OpenRead (image_path example_args), OpenRead (input_path example_args),
         OpenRead (hyper_path example_args)]"
    and ev: "UpdateWorkflow (workflow_pipeline_arn example_args) graph
        \<in> set (new_events example_world w')"
    and g: "graph = Chain [first_step,
          Parallel ''SageMaker Jobs'' [baseline,
            Chain (TrainingStep ''Training Job'' estimator data job_name config tags
                     result_path catches # rest)]
            jobs_catches]"
    and img: "files example_world (image_path example_args) = Some content"
      "json_loads example_env content = Inr detail"
      "getitem detail ''ImageURI'' = Inr (est_image_uri estimator)"
    by auto
  from img have i': "est_image_uri estimator = PStr ''repo/image:1''"
    by (auto simp: image_path_def example_args_def example_world_def example_env_def
        path_join_def split: if_splits)
  from reads have reads': "filter is_read (new_events example_world w') =
        [OpenRead ''ecr/imageDetail.json'', OpenRead ''data/inputData.json'',
         OpenRead ''data/hyperparameters.json'']"
    by (simp add: image_path_def input_path_def hyper_path_def example_args_def path_join_def)
  from ev have ev': "UpdateWorkflow ''arn:wf'' graph \<in> set (new_events example_world w')"
    by (simp add: example_args_def)
  show "\<exists>w' graph first_step baseline estimator data job_name config tags result_path catches rest
      jobs_catches.
      main example_env example_args example_world = (Inr (), w')
    \<and> filter is_read (new_events example_world w') =
        [OpenRead ''ecr/imageDetail.json'', OpenRead ''data/inputData.json'',
         OpenRead ''data/hyperparameters.json'']
    \<and> UpdateWorkflow ''arn:wf'' graph \<in> set (new_events example_world w')
    \<and> graph = Chain [first_step,
          Parallel ''SageMaker Jobs'' [baseline,
            Chain (TrainingStep ''Training Job'' estimator data job_name config tags
                     result_path catches # rest)]
            jobs_catches]
    \<and> est_image_uri estimator = PStr ''repo/image:1''"
    apply (rule exI [of _ w'], rule exI [of _ graph], rule exI [of _ first_step],
        rule exI [of _ baseline], rule exI [of _ estimator], rule exI [of _ data],
        rule exI [of _ job_name], rule exI [of _ config], rule exI [of _ tags],
        rule exI [of _ result_path], rule exI [of _ catches], rule exI [of _ rest],
        rule exI [of _ jobs_catches])
    using run reads' ev' g i' by simp
next
  obtain w' where run: "main example_env example_args_managed example_world_plain = (Inr (), w')"
    using example_run_managed by blast
  have ok: "\<exists>u. (Inr () :: error + unit) = Inr u"
    by simp
  have given: "\<not> ecr_given example_args_managed"
    by (simp add: ecr_given_def example_args_managed_def)
  have found: "\<not> hyper_found example_args_managed example_world_plain"
    by (simp add: hyper_found_def hyper_path_def example_args_managed_def example_args_def
        example_world_plain_def path_join_def)
  from main_reads_configuration [OF run, THEN conjunct2, THEN mp, OF ok] given found
  obtain graph first_step baseline estimator data job_name config tags result_path catches rest
      jobs_catches uri where
    reads: "filter is_read (new_events example_world_plain w') =
        [OpenRead (input_path example_args_managed)]"
    and ev: "UpdateWorkflow (workflow_pipeline_arn example_args_managed) graph
        \<in> set (new_events example_world_plain w')"
    and g: "graph = Chain [first_step,
          Parallel ''SageMaker Jobs'' [baseline,
            Chain (TrainingStep ''Training Job'' estimator data job_name config tags
                     result_path catches # rest)]
            jobs_catches]"
    and img: "retrieve example_env (region_name example_env) ''xgboost'' ''latest'' = Inr uri"
      "est_image_uri estimator = PStr uri"
    and h: "est_hyperparameters estimator = hp"
    by auto
  from img have i': "est_image_uri estimator = PStr ''xgboost.eu-west-1''"
    by (auto simp: example_env_def)
  from reads have reads': "filter is_read (new_events example_world_plain w') =
        [OpenRead ''data/inputData.json'']"
    by (simp add: input_path_def example_args_managed_def example_args_def path_join_def)
  from ev have ev': "UpdateWorkflow ''arn:wf'' graph \<in> set (new_events example_world_plain w')"
    by (simp add: example_args_managed_def example_args_def)
  show "\<exists>w' graph first_step baseline estimator data job_name config tags result_path catches rest
      jobs_catches.
      main example_env example_args_managed example_world_plain = (Inr (), w')
    \<and> filter is_read (new_events example_world_plain w') = [OpenRead ''data/inputData.json'']
    \<and> UpdateWorkflow ''arn:wf'' graph \<in> set (new_events example_world_plain w')
    \<and> graph = Chain [first_step,
          Parallel ''SageMaker Jobs'' [baseline,
            Chain (TrainingStep ''Training Job'' estimator data job_name config tags
                     result_path catches # rest)]
            jobs_catches]
    \<and> est_image_uri estimator = PStr ''xgboost.eu-west-1''
    \<and> est_hyperparameters estimator = hp"
    apply (rule exI [of _ w'], rule exI [of _ graph], rule exI [of _ first_step],
        rule exI [of _ baseline], rule exI [of _ estimator], rule exI [of _ data],
        rule exI [of _ job_name], rule exI [of _ config], rule exI [of _ tags],
        rule exI [of _ result_path], rule exI [of _ catches], rule exI [of _ rest],
        rule exI [of _ jobs_catches])
    using run reads' ev' g i' h by simp
qed

text \<open>
  C6. The dictionary read from \<open>hyperparameters.json\<close> is passed through to the training
  estimator. A run that finds the file and succeeds read a dictionary from it, and the
  hyperparameters of the estimator in the pushed graph are the defaults \<open>hp\<close> updated with
  every item of the file, the value turned into a string by \<open>str\<close>. So, the keys of the
  file being distinct, every key of the file has the string of its value, over any default,
  and every key that is not in the file has what the defaults have for it. The defaults are
  max_depth 9, eta 0.2, gamma 4, min_child_weight 300, subsample 0.8, objective reg:linear,
  early_stopping_rounds 10 and num_round 100, all strings.
\<close>

theorem hyperparameters_override_defaults:
  assumes "main env a w = (Inr u, w')" and "hyper_found a w"
  shows "\<exists>content kvs graph first_step baseline estimator data job_name config tags result_path
       catches rest jobs_catches.
      files w (hyper_path a) = Some content
    \<and> json_loads env content = Inr (PDict kvs)
    \<and> UpdateWorkflow (workflow_pipeline_arn a) graph \<in> set (new_events w w')
    \<and> graph = Chain [first_step,
          Parallel ''SageMaker Jobs'' [baseline,
            Chain (TrainingStep ''Training Job'' estimator data job_name config tags
                     result_path catches # rest)]
            jobs_catches]
    \<and> est_hyperparameters estimator =
          dict_update_all hp (map (\<lambda>(k, v). (k, PStr (py_str env v))) kvs)
    \<and> (distinct (map fst kvs) \<longrightarrow>
          (\<forall>k v. map_of kvs k = Some v \<longrightarrow>
             map_of (est_hyperparameters estimator) k = Some (PStr (py_str env v)))
        \<and> (\<forall>k. map_of kvs k = None \<longrightarrow>
             map_of (est_hyperparameters estimator) k = map_of hp k))
    \<and> hp = [(''max_depth'', PStr ''9''), (''eta'', PStr ''0.2''), (''gamma'', PStr ''4''),
            (''min_child_weight'', PStr ''300''), (''subsample'', PStr ''0.8''),
            (''objective'', PStr ''reg:linear''), (''early_stopping_rounds'', PStr ''10''),
            (''num_round'', PStr ''100'')]"
proof -
  obtain image_uri job_id git dv graph w1 arts where
    prep: "prepare env a w = (Inr (image_uri, job_id, git, dv, graph), w1)"
    and ne: "new_events w w' = config_reads a w @ AttachWorkflow (workflow_pipeline_arn a)
         # UpdateWorkflow (workflow_pipeline_arn a) graph # arts"
    and "\<forall>e\<in>set arts. is_artifact e"
    and "WriteFile (path_join (output_dir a) ''workflow-graph.json'')
      (definition_to_json env graph) \<in> set arts"
    by (rule main_success_arts [OF assms(1)])
  from prepare_training [OF prep] assms(2) obtain hyperparameters first_step baseline estimator
      data job_name config tags result_path catches rest jobs_catches content loaded where
    g: "graph = Chain [first_step,
        Parallel ''SageMaker Jobs'' [baseline,
          Chain (TrainingStep ''Training Job'' estimator data job_name config tags result_path
                   catches # rest)]
          jobs_catches]"
    and m: "merge_hyperparameters hyperparameters = Inr (est_hyperparameters estimator)"
    and f: "files w (hyper_path a) = Some content"
    and l: "json_loads env content = Inr loaded"
    and sv: "str_values (py_str env) loaded = Inr hyperparameters"
    by blast
  from str_values_merge [OF sv m] obtain kvs where
    kvs: "loaded = PDict kvs"
    and est: "est_hyperparameters estimator =
          dict_update_all hp (map (\<lambda>(k, v). (k, PStr (py_str env v))) kvs)"
    by blast
  have ev: "UpdateWorkflow (workflow_pipeline_arn a) graph \<in> set (new_events w w')"
    by (simp add: ne)
  have lookups: "(\<forall>k v. map_of kvs k = Some v \<longrightarrow>
             map_of (est_hyperparameters estimator) k = Some (PStr (py_str env v)))
        \<and> (\<forall>k. map_of kvs k = None \<longrightarrow>
             map_of (est_hyperparameters estimator) k = map_of hp k)"
    if "distinct (map fst kvs)"
  proof -
    from that have "distinct (map fst (map (\<lambda>(k, v). (k, PStr (py_str env v))) kvs))"
      by (simp only: keys_str_values)
    then have "map_of (est_hyperparameters estimator) =
        map_of hp ++ map_of (map (\<lambda>(k, v). (k, PStr (py_str env v))) kvs)"
      unfolding est by (rule map_of_dict_update_all)
    then show ?thesis
      by (simp add: map_add_def map_of_str_values)
  qed
  show ?thesis
    apply (rule exI [of _ content], rule exI [of _ kvs], rule exI [of _ graph],
        rule exI [of _ first_step], rule exI [of _ baseline], rule exI [of _ estimator],
        rule exI [of _ data], rule exI [of _ job_name], rule exI [of _ config],
        rule exI [of _ tags], rule exI [of _ result_path], rule exI [of _ catches],
        rule exI [of _ rest], rule exI [of _ jobs_catches])
    using f l kvs ev g est lookups by (simp add: hp_def)
qed

theorem hyperparameters_override_defaults_witness:
  "\<exists>w' graph first_step baseline estimator data job_name config tags result_path catches rest
      jobs_catches.
      main example_env example_args example_world = (Inr (), w')
    \<and> json_loads example_env ''H'' = Inr (PDict [(''eta'', PFloat 0.5), (''seed'', PInt 7)])
    \<and> UpdateWorkflow ''arn:wf'' graph \<in> set (new_events example_world w')
    \<and> graph = Chain [first_step,
          Parallel ''SageMaker Jobs'' [baseline,
            Chain (TrainingStep ''Training Job'' estimator data job_name config tags
                     result_path catches # rest)]
            jobs_catches]
    \<and> map_of (est_hyperparameters estimator) ''eta'' = Some (PStr ''0.5'')
    \<and> map_of (est_hyperparameters estimator) ''seed'' = Some (PStr ''7'')
    \<and> map_of (est_hyperparameters estimator) ''max_depth'' = Some (PStr ''9'')
    \<and> map_of (est_hyperparameters estimator) ''num_round'' = Some (PStr ''100'')"
proof -
  obtain w' where run: "main example_env example_args example_world = (Inr (), w')"
    using example_run by blast
  have found: "hyper_found example_args example_world"
    by (simp add: hyper_found_def hyper_path_def example_args_def example_world_def path_join_def)
  from hyperparameters_override_defaults [OF run found]
  obtain content kvs graph first_step baseline estimator data job_name config tags result_path
      catches rest jobs_catches where
    f: "files example_world (hyper_path example_args) = Some content"
    and l: "json_loads example_env content = Inr (PDict kvs)"
    and ev: "UpdateWorkflow (workflow_pipeline_arn example_args) graph
        \<in> set (new_events example_world w')"
    and g: "graph = Chain [first_step,
          Parallel ''SageMaker Jobs'' [baseline,
            Chain (TrainingStep ''Training Job'' estimator data job_name config tags
                     result_path catches # rest)]
            jobs_catches]"
    and lookups: "distinct (map fst kvs) \<longrightarrow>
          (\<forall>k v. map_of kvs k = Some v \<longrightarrow>
             map_of (est_hyperparameters estimator) k = Some (PStr (py_str example_env v)))
        \<and> (\<forall>k. map_of kvs k = None \<longrightarrow>
             map_of (est_hyperparameters estimator) k = map_of hp k)"
    by blast
  from f have content: "content = ''H''"
    by (simp add: hyper_path_def example_args_def example_world_def path_join_def)
  have loaded: "json_loads example_env ''H''
      = Inr (PDict [(''eta'', PFloat 0.5), (''seed'', PInt 7)])"
    by (simp add: example_env_def)
  with l content have kvs: "kvs = [(''eta'', PFloat 0.5), (''seed'', PInt 7)]"
    by simp
  from lookups have
    over: "\<And>k v. map_of kvs k = Some v \<Longrightarrow>
             map_of (est_hyperparameters estimator) k = Some (PStr (py_str example_env v))"
    and keep: "\<And>k. map_of kvs k = None \<Longrightarrow>
             map_of (est_hyperparameters estimator) k = map_of hp k"
    by (simp_all add: kvs)
  have 1: "map_of (est_hyperparameters estimator) ''eta'' = Some (PStr ''0.5'')"
    using over [of "''eta''" "PFloat 0.5"] by (simp add: kvs example_env_def)
  have 2: "map_of (est_hyperparameters estimator) ''seed'' = Some (PStr ''7'')"
    using over [of "''seed''" "PInt 7"] by (simp add: kvs example_env_def)
  have 3: "map_of (est_hyperparameters estimator) ''max_depth'' = Some (PStr ''9'')"
    using keep [of "''max_depth''"] by (simp add: kvs hp_def)
  have 4: "map_of (est_hyperparameters estimator) ''num_round'' = Some (PStr ''100'')"
    using keep [of "''num_round''"] by (simp add: kvs hp_def)
  from ev have ev': "UpdateWorkflow ''arn:wf'' graph \<in> set (new_events example_world w')"
    by (simp add: example_args_def)
  show ?thesis
    apply (rule exI [of _ w'], rule exI [of _ graph], rule exI [of _ first_step],
        rule exI [of _ baseline], rule exI [of _ estimator], rule exI [of _ data],
        rule exI [of _ job_name], rule exI [of _ config], rule exI [of _ tags],
        rule exI [of _ result_path], rule exI [of _ catches], rule exI [of _ rest],
        rule exI [of _ jobs_catches])
    using run loaded ev' g 1 2 3 4 by simp
qed

text \<open>
  C7. The graph is a description that depends on the configuration only. Take two runs of main
  with the same arguments, on file systems with the same files and directories, with libraries
  that agree (region, image lookup, dataset format, \<^verbatim>\<open>json.dumps\<close>, \<^verbatim>\<open>json.load\<close>,
  \<^verbatim>\<open>str\<close>); the pipeline state, the answers of the workflow service, the errors of the file
  system and the rendering of the definition may all differ. If both runs get to the update
  call, they push the same graph. Job names, the baseline output, the experiment configuration
  and the tags are in that graph as placeholders of the execution input, the model step reads
  the result path of the training step, and the Choice state compares a path into
  the result of the query step with the literal 10: no job result and no metric value is in the
  graph.
\<close>

theorem graph_depends_only_on_configuration:
  assumes run1: "main env1 a w1 = (r1, w1')"
    and run2: "main env2 a w2 = (r2, w2')"
    and ev1: "UpdateWorkflow arn1 graph1 \<in> set (new_events w1 w1')"
    and ev2: "UpdateWorkflow arn2 graph2 \<in> set (new_events w2 w2')"
    and lib: "region_name env1 = region_name env2" "retrieve env1 = retrieve env2"
      "dataset_format_csv env1 = dataset_format_csv env2" "json_dumps env1 = json_dumps env2"
      "json_loads env1 = json_loads env2" "py_str env1 = py_str env2"
    and fs: "files w1 = files w2" "dirs w1 = dirs w2"
  shows "graph1 = graph2
    \<and> (\<exists>first_step processor inputs catches1 estimator data catches2 model query_params
         fallback.
     graph1 = Chain [first_step,
       Parallel ''SageMaker Jobs''
         [ProcessingStep ''Baseline Job'' processor (ExecutionInputVar ''BaselineJobName'') inputs
            [\<lparr>po_source = ''/opt/ml/processing/output'',
              po_destination = ExecutionInputVar ''BaselineOutputUri'',
              po_output_name = ''monitoring_output''\<rparr>]
            (PDict [(''ExperimentName'', ExecutionInputVar ''ExperimentName''),
                    (''TrialName'', ExecutionInputVar ''TrialName''),
                    (''TrialComponentDisplayName'', PStr ''Baseline'')])
            (PDict [(''GitBranch'', ExecutionInputVar ''GitBranch''),
                    (''GitCommitHash'', ExecutionInputVar ''GitCommitHash''),
                    (''DataVersionId'', ExecutionInputVar ''DataVersionId'')])
            catches1,
          Chain [
            TrainingStep ''Training Job'' estimator data (ExecutionInputVar ''TrainingJobName'')
              (PDict [(''ExperimentName'', ExecutionInputVar ''ExperimentName''),
                      (''TrialName'', ExecutionInputVar ''TrialName''),
                      (''TrialComponentDisplayName'', PStr ''Training'')])
              (PDict [(''GitBranch'', ExecutionInputVar ''GitBranch''),
                      (''GitCommitHash'', ExecutionInputVar ''GitCommitHash''),
                      (''DataVersionId'', ExecutionInputVar ''DataVersionId'')])
              ''$.TrainingResults'' catches2,
            ModelStep ''Save Model'' ''$.TrainingResults'' model
              (ExecutionInputVar ''TrainingJobName'') ''$.ModelStepResults'',
            LambdaStep ''Query Training Results'' query_params ''$.QueryTrainingResults'',
            Choice ''RMSE < 10''
              [(NumericLessThan
                  (StepOutputVar ''Query Training Results''
                     [Key ''QueryTrainingResults'', Key ''Payload'', Key ''results'',
                      Key ''TrainingMetrics'', Index 0, Key ''Value''])
                  10,
                Succeed ''Model Error Acceptable'')]
              fallback]]
         [Catch [''States.TaskFailed'']
            (Fail ''SageMaker Jobs failed'' (Some ''SageMakerJobsFailed'') None)]])"
proof (rule conjI)
  from run1 ev1 obtain image_uri1 job_id1 git1 dv1 v1 where
    p1: "prepare env1 a w1 = (Inr (image_uri1, job_id1, git1, dv1, graph1), v1)"
    by (rule main_pushed_graph)
  from run2 ev2 obtain image_uri2 job_id2 git2 dv2 v2 where
    p2: "prepare env2 a w2 = (Inr (image_uri2, job_id2, git2, dv2, graph2), v2)"
    by (rule main_pushed_graph)
  from prepare_graph_cong [OF p1 p2 lib fs] show "graph1 = graph2"
    by simp
  from prepare_graph_symbolic [OF p1] show "\<exists>first_step processor inputs catches1 estimator data catches2 model query_params
         fallback.
     graph1 = Chain [first_step,
       Parallel ''SageMaker Jobs''
         [ProcessingStep ''Baseline Job'' processor (ExecutionInputVar ''BaselineJobName'') inputs
            [\<lparr>po_source = ''/opt/ml/processing/output'',
              po_destination = ExecutionInputVar ''BaselineOutputUri'',
              po_output_name = ''monitoring_output''\<rparr>]
            (PDict [(''ExperimentName'', ExecutionInputVar ''ExperimentName''),
                    (''TrialName'', ExecutionInputVar ''TrialName''),
                    (''TrialComponentDisplayName'', PStr ''Baseline'')])
            (PDict [(''GitBranch'', ExecutionInputVar ''GitBranch''),
                    (''GitCommitHash'', ExecutionInputVar ''GitCommitHash''),
                    (''DataVersionId'', ExecutionInputVar ''DataVersionId'')])
            catches1,
          Chain [
            TrainingStep ''Training Job'' estimator data (ExecutionInputVar ''TrainingJobName'')
              (PDict [(''ExperimentName'', ExecutionInputVar ''ExperimentName''),
                      (''TrialName'', ExecutionInputVar ''TrialName''),
                      (''TrialComponentDisplayName'', PStr ''Training'')])
              (PDict [(''GitBranch'', ExecutionInputVar ''GitBranch''),
                      (''GitCommitHash'', ExecutionInputVar ''GitCommitHash''),
                      (''DataVersionId'', ExecutionInputVar ''DataVersionId'')])
              ''$.TrainingResults'' catches2,
            ModelStep ''Save Model'' ''$.TrainingResults'' model
              (ExecutionInputVar ''TrainingJobName'') ''$.ModelStepResults'',
            LambdaStep ''Query Training Results'' query_params ''$.QueryTrainingResults'',
            Choice ''RMSE < 10''
              [(NumericLessThan
                  (StepOutputVar ''Query Training Results''
                     [Key ''QueryTrainingResults'', Key ''Payload'', Key ''results'',
                      Key ''TrainingMetrics'', Index 0, Key ''Value''])
                  10,
                Succeed ''Model Error Acceptable'')]
              fallback]]
         [Catch [''States.TaskFailed'']
            (Fail ''SageMaker Jobs failed'' (Some ''SageMakerJobsFailed'') None)]]" .
qed


theorem graph_depends_only_on_configuration_witness:
  "\<exists>w1 w2 graph.
      main example_env example_args example_world = (Inr (), w1)
    \<and> main example_env_other_pipeline example_args example_world = (Inr (), w2)
    \<and> UpdateWorkflow ''arn:wf'' graph \<in> set (new_events example_world w1)
    \<and> UpdateWorkflow ''arn:wf'' graph \<in> set (new_events example_world w2)
    \<and> get_pipeline_revision example_env ''pipe''
        \<noteq> get_pipeline_revision example_env_other_pipeline ''pipe''
    \<and> definition_to_json example_env graph
        \<noteq> definition_to_json example_env_other_pipeline graph"
proof -
  obtain w1 where run1: "main example_env example_args example_world = (Inr (), w1)"
    using example_run by blast
  obtain w2 where
    run2: "main example_env_other_pipeline example_args example_world = (Inr (), w2)"
    using example_run_other_pipeline by blast
  from main_success_pushed [OF run1] obtain graph1 where
    ev1: "UpdateWorkflow ''arn:wf'' graph1 \<in> set (new_events example_world w1)"
    by (auto simp: example_args_def)
  from main_success_pushed [OF run2] obtain graph2 where
    ev2: "UpdateWorkflow ''arn:wf'' graph2 \<in> set (new_events example_world w2)"
    by (auto simp: example_args_def)
  have "graph1 = graph2"
    using graph_depends_only_on_configuration [OF run1 run2 ev1 ev2]
    by (simp add: example_env_other_pipeline_def)
  with ev2 have ev2': "UpdateWorkflow ''arn:wf'' graph1 \<in> set (new_events example_world w2)"
    by simp
  have differ: "get_pipeline_revision example_env ''pipe''
        \<noteq> get_pipeline_revision example_env_other_pipeline ''pipe''"
    by (simp add: get_pipeline_revision_def example_env_def example_env_other_pipeline_def
        and_then_def dict_update_all_def Let_def)
  have json: "definition_to_json example_env graph1
        \<noteq> definition_to_json example_env_other_pipeline graph1"
    by (simp add: example_env_def example_env_other_pipeline_def split: step.splits)
  show ?thesis
    apply (rule exI [of _ w1], rule exI [of _ w2], rule exI [of _ graph1])
    using run1 run2 ev1 ev2' differ json by simp
qed

end
